theory Spec2Isabelle
  imports Complex_Main "HOL-Library.Word"
begin

section \<open>Data model\<close>

text \<open>
  The routines verified here build OpenMP task graphs over tile indices. The embedding
  records what each routine creates, in program order: the tasks with their
  \<^verbatim>\<open>depend\<close> and \<^verbatim>\<open>priority\<close> clauses and the kernel calls of
  their bodies, and the calls made directly by the master thread. The kernels themselves
  (\<^verbatim>\<open>internal::potrf\<close>, \<^verbatim>\<open>internal::herk\<close>, the broadcasts, ...)
  are not part of the sources at hand; a call is recorded with its target and operands.

  Tile indices are \<^verbatim>\<open>int64_t\<close> in the source and \<^typ>\<open>int\<close> here: every
  index the sweeps compute lies between \<open>-1 - lookahead\<close> and \<open>mt + lookahead\<close>,
  so nothing wraps for any matrix that fits in memory.
\<close>

datatype Target = Host | HostTask | HostNest | HostBatch | Devices

datatype Uplo = Upper | Lower | General

datatype Op = NoTrans | Trans | ConjTrans

datatype Side = Left | Right

datatype Diag = NonUnit | Unit

datatype TileReleaseStrategy = TRS_None | TRS_Internal | TRS_Slate | TRS_All

text \<open>
  \<^verbatim>\<open>Options\<close> is a map from option names to values; the three entries read by the
  routines below are fields here, \<open>None\<close> when the caller did not set the entry.
  \<^verbatim>\<open>get_option(opts, key, default)\<close> returns the entry or the default.
\<close>

record Options =
  opt_Lookahead :: "int option"
  opt_Target :: "Target option"
  opt_TileReleaseStrategy :: "TileReleaseStrategy option"

definition get_option :: "'a option \<Rightarrow> 'a \<Rightarrow> 'a" where
  "get_option entry dflt = (case entry of None \<Rightarrow> dflt | Some v \<Rightarrow> v)"

text \<open>A \<^verbatim>\<open>depend\<close> clause on one entry of the token vector.\<close>

datatype depend = In int | Inout int

datatype kind = Panel | LookaheadUpdate | TrailingUpdate | Release

text \<open>
  One \<^verbatim>\<open>#pragma omp task\<close>: the role the source's comment gives it, its
  \<^verbatim>\<open>depend\<close> clauses in source order, its \<^verbatim>\<open>priority\<close> clause
  (0 when absent) and the calls of its body in order.
\<close>

record 'c task =
  kind :: kind
  depends :: "depend list"
  priority :: int
  body :: "'c list"

datatype 'c event = Spawn "'c task" | Taskwait | Call 'c

subsection \<open>Operands of the Cholesky factorization\<close>

text \<open>
  \<open>Sub i1 i2 j1 j2\<close> is \<^verbatim>\<open>A.sub(i1, i2, j1, j2)\<close>, tile rows \<open>i1..i2\<close> and tile
  columns \<open>j1..j2\<close>; \<open>SubD i1 i2\<close> is the two-argument \<^verbatim>\<open>A.sub(i1, i2)\<close> of a
  Hermitian matrix, the diagonal block of tile rows and columns \<open>i1..i2\<close>.
\<close>

datatype sub = Sub int int int int | SubD int int

datatype opnd = Tiles sub | ConjTranspose opnd | Triangular Diag opnd

text \<open>One entry of a \<^verbatim>\<open>BcastListTag\<close>: source tile, destinations, message tag.\<close>

record bcast_entry =
  src_i :: int
  src_j :: int
  dests :: "sub list"
  tag :: int

text \<open>
  The calls of \<^verbatim>\<open>potrf\<close>. Scalars are the source's constants (\<open>-1\<close> and \<open>1\<close>).
  An option is an argument that some calls pass and others leave to its default: the
  priority of \<^verbatim>\<open>internal::potrf\<close>; the priority and then the queue index of
  \<^verbatim>\<open>trsm\<close>, \<^verbatim>\<open>herk\<close> and \<^verbatim>\<open>gemm\<close>; the target and the pair
  (life factor, is_shared) of \<^verbatim>\<open>listBcastMT\<close>. The layout (always column major)
  and the option map passed on are left out.
\<close>

datatype potrf_call =
    Potrf Target opnd "int option"
  | TileBcast int int sub
  | Trsm Target Side int opnd opnd "int option" "int option"
  | ListBcastMT "Target option" "bcast_entry list" "(int \<times> bool) option"
  | Herk Target int opnd int opnd "int option" "int option"
  | Gemm Target int opnd opnd int opnd "int option" "int option"
  | PotrfReleasePanel int
  | PotrfCleanTiles int
  | AllocateBatchArrays int int
  | ReserveDeviceWorkspace
  | TileUpdateAllOrigin
  | ReleaseWorkspace

section \<open>Cholesky factorization: the generic specialization\<close>

text \<open>\<^verbatim>\<open>for (int64_t i = k+1; i < A_nt; ++i) bcast_list_A.push_back(...)\<close>\<close>

function bcast_list_A :: "int \<Rightarrow> int \<Rightarrow> int \<Rightarrow> bcast_entry list" where
  "bcast_list_A A_nt k i =
     (if i < A_nt
      then \<lparr>src_i = i, src_j = k,
            dests = [Sub i i (k+1) i, Sub i (A_nt-1) i i], tag = i\<rparr>
           # bcast_list_A A_nt k (i+1)
      else [])"
  by pat_completeness auto
termination
  by (relation "measure (\<lambda>(A_nt, k, i). nat (A_nt - i))") auto

declare bcast_list_A.simps [simp del]

definition potrf_panel :: "int \<Rightarrow> int \<Rightarrow> potrf_call task" where
  "potrf_panel A_nt k =
     \<lparr>kind = Panel, depends = [Inout k], priority = 1,
      body =
        [Potrf HostTask (Tiles (SubD k k)) (Some 1)]
        @ (if k+1 \<le> A_nt-1 then [TileBcast k k (Sub (k+1) (A_nt-1) k k)] else [])
        @ (if k+1 \<le> A_nt-1
           then [Trsm HostTask Right 1
                   (ConjTranspose (Triangular NonUnit (Tiles (SubD k k))))
                   (Tiles (Sub (k+1) (A_nt-1) k k)) (Some 1) None]
           else [])
        @ [ListBcastMT None (bcast_list_A A_nt k (k+1)) None]\<rparr>"

definition potrf_lookahead_task :: "int \<Rightarrow> int \<Rightarrow> int \<Rightarrow> potrf_call task" where
  "potrf_lookahead_task A_nt k j =
     \<lparr>kind = LookaheadUpdate, depends = [In k, Inout j], priority = 1,
      body =
        [Herk HostTask (-1) (Tiles (Sub j j k k)) 1 (Tiles (SubD j j)) (Some 1) None]
        @ (if j+1 \<le> A_nt-1
           then [Gemm HostTask (-1) (Tiles (Sub (j+1) (A_nt-1) k k))
                   (ConjTranspose (Tiles (Sub j j k k)))
                   1 (Tiles (Sub (j+1) (A_nt-1) j j)) (Some 1) None]
           else [])\<rparr>"

text \<open>\<^verbatim>\<open>for (int64_t j = k+1; j < k+1+lookahead && j < A_nt; ++j)\<close>\<close>

function potrf_lookahead_loop ::
  "int \<Rightarrow> int \<Rightarrow> int \<Rightarrow> int \<Rightarrow> potrf_call event list" where
  "potrf_lookahead_loop A_nt lookahead k j =
     (if j < k+1+lookahead \<and> j < A_nt
      then Spawn (potrf_lookahead_task A_nt k j)
           # potrf_lookahead_loop A_nt lookahead k (j+1)
      else [])"
  by pat_completeness auto
termination
  by (relation "measure (\<lambda>(A_nt, lookahead, k, j). nat (A_nt - j))") auto

declare potrf_lookahead_loop.simps [simp del]

definition potrf_trailing_task :: "Target \<Rightarrow> int \<Rightarrow> int \<Rightarrow> int \<Rightarrow> potrf_call task" where
  "potrf_trailing_task target A_nt lookahead k =
     \<lparr>kind = TrailingUpdate,
      depends = [In k, Inout (k+1+lookahead), Inout (A_nt-1)], priority = 0,
      body =
        [Herk target (-1) (Tiles (Sub (k+1+lookahead) (A_nt-1) k k))
           1 (Tiles (SubD (k+1+lookahead) (A_nt-1))) None None]\<rparr>"

text \<open>One iteration of the column loop: the tasks created at step \<open>k\<close>.\<close>

definition potrf_step :: "Target \<Rightarrow> int \<Rightarrow> int \<Rightarrow> int \<Rightarrow> potrf_call event list" where
  "potrf_step target A_nt lookahead k =
     [Spawn (potrf_panel A_nt k)]
     @ potrf_lookahead_loop A_nt lookahead k (k+1)
     @ (if k+1+lookahead < A_nt
        then [Spawn (potrf_trailing_task target A_nt lookahead k)]
        else [])"

text \<open>\<^verbatim>\<open>for (int64_t k = 0; k < A_nt; ++k)\<close>; each iteration is paired with its \<open>k\<close>.\<close>

function potrf_loop ::
  "Target \<Rightarrow> int \<Rightarrow> int \<Rightarrow> int \<Rightarrow> (int \<times> potrf_call event list) list" where
  "potrf_loop target A_nt lookahead k =
     (if k < A_nt
      then (k, potrf_step target A_nt lookahead k) # potrf_loop target A_nt lookahead (k+1)
      else [])"
  by pat_completeness auto
termination
  by (relation "measure (\<lambda>(target, A_nt, lookahead, k). nat (A_nt - k))") auto

declare potrf_loop.simps [simp del]

text \<open>
  The matrix view is abstract: \<open>'h\<close> is \<^verbatim>\<open>HermitianMatrix<scalar_t>\<close>, and the three
  members the routine uses are parameters.
\<close>

record 'h hermitian_ops =
  h_uplo :: "'h \<Rightarrow> Uplo"
  h_conjTranspose :: "'h \<Rightarrow> 'h"
  h_nt :: "'h \<Rightarrow> int"

text \<open>\<^verbatim>\<open>if (A.uplo() == Uplo::Upper) A = conjTranspose(A);\<close>\<close>

definition to_lower :: "'h hermitian_ops \<Rightarrow> 'h \<Rightarrow> 'h" where
  "to_lower M A = (if h_uplo M A = Upper then h_conjTranspose M A else A)"

text \<open>
  The result of a factorization routine: the view it worked on, the iterations of its
  column loop in the order they ran (each \<open>k\<close> with the events it created) and the
  events before and after the loop.
  The routine returns \<^verbatim>\<open>void\<close>: there is no status field.
\<close>

record 'h potrf_result =
  view :: 'h
  before_loop :: "potrf_call event list"
  steps :: "(int \<times> potrf_call event list) list"
  after_loop :: "potrf_call event list"

text \<open>The events of a whole sweep, iteration after iteration.\<close>

definition sweep_events :: "(int \<times> 'c event list) list \<Rightarrow> 'c event list" where
  "sweep_events its = concat (map snd its)"

definition events :: "'h potrf_result \<Rightarrow> potrf_call event list" where
  "events r = before_loop r @ sweep_events (steps r) @ after_loop r"

definition potrf_generic ::
  "Target \<Rightarrow> 'h hermitian_ops \<Rightarrow> 'h \<Rightarrow> int \<Rightarrow> Options \<Rightarrow> 'h potrf_result" where
  "potrf_generic target M A lookahead opts =
     (let A1 = to_lower M A;
          A_nt = h_nt M A1
      in \<lparr>view = A1,
          before_loop = [],
          steps = potrf_loop target A_nt lookahead 0,
          after_loop = [Call TileUpdateAllOrigin, Call ReleaseWorkspace]\<rparr>)"

section \<open>Cholesky factorization: the device specialization\<close>

text \<open>
  \<^verbatim>\<open>const int num_queues = 2 + lookahead;\<close> stores an \<^verbatim>\<open>int64_t\<close> sum in an
  \<^verbatim>\<open>int\<close>: the value is reduced to 32 bits, two's complement.
\<close>

definition to_int32 :: "int \<Rightarrow> int" where
  "to_int32 x = sint (word_of_int x :: 32 word)"

definition potrf_devices_panel :: "int \<Rightarrow> bool \<Rightarrow> int \<Rightarrow> potrf_call task" where
  "potrf_devices_panel A_nt is_shared k =
     \<lparr>kind = Panel, depends = [Inout k], priority = 0,
      body =
        [Potrf HostTask (Tiles (SubD k k)) None]
        @ (if k+1 \<le> A_nt-1 then [TileBcast k k (Sub (k+1) (A_nt-1) k k)] else [])
        @ (if k+1 \<le> A_nt-1
           then [Trsm Devices Right 1
                   (ConjTranspose (Triangular NonUnit (Tiles (SubD k k))))
                   (Tiles (Sub (k+1) (A_nt-1) k k)) (Some 0) (Some 1)]
           else [])
        @ [ListBcastMT (Some Devices) (bcast_list_A A_nt k (k+1)) (Some (1, is_shared))]\<rparr>"

definition potrf_devices_trailing_task :: "int \<Rightarrow> int \<Rightarrow> int \<Rightarrow> potrf_call task" where
  "potrf_devices_trailing_task A_nt lookahead k =
     \<lparr>kind = TrailingUpdate,
      depends = [In k, Inout (k+1+lookahead), Inout (A_nt-1)], priority = 0,
      body =
        [Herk Devices (-1) (Tiles (Sub (k+1+lookahead) (A_nt-1) k k))
           1 (Tiles (SubD (k+1+lookahead) (A_nt-1))) (Some 0) (Some 0)]\<rparr>"

definition potrf_devices_lookahead_task :: "int \<Rightarrow> int \<Rightarrow> int \<Rightarrow> potrf_call task" where
  "potrf_devices_lookahead_task A_nt k j =
     \<lparr>kind = LookaheadUpdate, depends = [In k, Inout j], priority = 0,
      body =
        [Herk Devices (-1) (Tiles (Sub j j k k)) 1 (Tiles (SubD j j))
           (Some 0) (Some (j-k+1))]
        @ (if j+1 \<le> A_nt-1
           then [Gemm Devices (-1) (Tiles (Sub (j+1) (A_nt-1) k k))
                   (ConjTranspose (Tiles (Sub j j k k)))
                   1 (Tiles (Sub (j+1) (A_nt-1) j j)) (Some 0) (Some (j-k+1))]
           else [])\<rparr>"

function potrf_devices_lookahead_loop ::
  "int \<Rightarrow> int \<Rightarrow> int \<Rightarrow> int \<Rightarrow> potrf_call event list" where
  "potrf_devices_lookahead_loop A_nt lookahead k j =
     (if j < k+1+lookahead \<and> j < A_nt
      then Spawn (potrf_devices_lookahead_task A_nt k j)
           # potrf_devices_lookahead_loop A_nt lookahead k (j+1)
      else [])"
  by pat_completeness auto
termination
  by (relation "measure (\<lambda>(A_nt, lookahead, k, j). nat (A_nt - j))") auto

declare potrf_devices_lookahead_loop.simps [simp del]

text \<open>
  The two release tasks at the end of an iteration, chosen by the tile release strategy.
\<close>

definition potrf_devices_release ::
  "TileReleaseStrategy \<Rightarrow> int \<Rightarrow> int \<Rightarrow> potrf_call event list" where
  "potrf_devices_release tile_release_strategy lookahead k =
     (if tile_release_strategy = TRS_All
      then (if lookahead > 0 \<and> k \<ge> lookahead
            then [Spawn \<lparr>kind = Release, depends = [In k, Inout (k+1)], priority = 0,
                         body = [PotrfReleasePanel (k - lookahead)]\<rparr>]
            else [])
      else [])
     @ (if tile_release_strategy = TRS_Slate
        then [Spawn \<lparr>kind = Release, depends = [Inout k], priority = 0,
                     body = [PotrfCleanTiles k]\<rparr>]
        else [])"

definition potrf_devices_step ::
  "TileReleaseStrategy \<Rightarrow> int \<Rightarrow> int \<Rightarrow> int \<Rightarrow> potrf_call event list" where
  "potrf_devices_step tile_release_strategy A_nt lookahead k =
     [Spawn (potrf_devices_panel A_nt (lookahead > 0) k)]
     @ (if k+1+lookahead < A_nt
        then [Spawn (potrf_devices_trailing_task A_nt lookahead k)]
        else [])
     @ potrf_devices_lookahead_loop A_nt lookahead k (k+1)
     @ potrf_devices_release tile_release_strategy lookahead k"

function potrf_devices_loop ::
  "TileReleaseStrategy \<Rightarrow> int \<Rightarrow> int \<Rightarrow> int \<Rightarrow> (int \<times> potrf_call event list) list"
  where
  "potrf_devices_loop trs A_nt lookahead k =
     (if k < A_nt
      then (k, potrf_devices_step trs A_nt lookahead k)
           # potrf_devices_loop trs A_nt lookahead (k+1)
      else [])"
  by pat_completeness auto
termination
  by (relation "measure (\<lambda>(trs, A_nt, lookahead, k). nat (A_nt - k))") auto

declare potrf_devices_loop.simps [simp del]

definition potrf_devices ::
  "'h hermitian_ops \<Rightarrow> 'h \<Rightarrow> int \<Rightarrow> Options \<Rightarrow> 'h potrf_result" where
  "potrf_devices M A lookahead opts =
     (let tile_release_strategy = get_option (opt_TileReleaseStrategy opts) TRS_All;
          A1 = to_lower M A;
          A_nt = h_nt M A1;
          batch_size_zero = 0;
          num_queues = to_int32 (2 + lookahead)
      in \<lparr>view = A1,
          before_loop = [Call (AllocateBatchArrays batch_size_zero num_queues),
                         Call ReserveDeviceWorkspace],
          steps = potrf_devices_loop tile_release_strategy A_nt lookahead 0,
          after_loop = [Taskwait, Call TileUpdateAllOrigin, Call ReleaseWorkspace]\<rparr>)"

section \<open>Cholesky factorization: the entry points\<close>

text \<open>
  Overload resolution picks the device version for \<^verbatim>\<open>TargetType<Target::Devices>\<close>
  and the generic template otherwise.
\<close>

definition specialization_potrf ::
  "Target \<Rightarrow> 'h hermitian_ops \<Rightarrow> 'h \<Rightarrow> int \<Rightarrow> Options \<Rightarrow> 'h potrf_result" where
  "specialization_potrf target M A lookahead opts =
     (if target = Devices then potrf_devices M A lookahead opts
      else potrf_generic target M A lookahead opts)"

text \<open>The version with the target as template parameter.\<close>

definition potrf_target ::
  "Target \<Rightarrow> 'h hermitian_ops \<Rightarrow> 'h \<Rightarrow> Options \<Rightarrow> 'h potrf_result" where
  "potrf_target target M A opts =
     (let lookahead = get_option (opt_Lookahead opts) 1
      in specialization_potrf target M A lookahead opts)"

text \<open>The public entry point; it returns \<^verbatim>\<open>void\<close>.\<close>

definition potrf :: "'h hermitian_ops \<Rightarrow> 'h \<Rightarrow> Options \<Rightarrow> 'h potrf_result" where
  "potrf M A opts =
     (let target = get_option (opt_Target opts) HostTask
      in case target of
           Host \<Rightarrow> potrf_target HostTask M A opts
         | HostTask \<Rightarrow> potrf_target HostTask M A opts
         | HostNest \<Rightarrow> potrf_target HostNest M A opts
         | HostBatch \<Rightarrow> potrf_target HostBatch M A opts
         | Devices \<Rightarrow> potrf_target Devices M A opts)"

section \<open>Reading a task graph\<close>

text \<open>The matrix block a call updates in place, when it updates one.\<close>

fun opnd_sub :: "opnd \<Rightarrow> sub" where
  "opnd_sub (Tiles s) = s"
| "opnd_sub (ConjTranspose x) = opnd_sub x"
| "opnd_sub (Triangular d x) = opnd_sub x"

fun updated :: "potrf_call \<Rightarrow> sub option" where
  "updated (Potrf t a p) = Some (opnd_sub a)"
| "updated (Trsm t s al a b p q) = Some (opnd_sub b)"
| "updated (Herk t al a be c p q) = Some (opnd_sub c)"
| "updated (Gemm t al a b be c p q) = Some (opnd_sub c)"
| "updated c = None"

text \<open>The tile columns of a block.\<close>

fun sub_cols :: "sub \<Rightarrow> int set" where
  "sub_cols (Sub i1 i2 j1 j2) = {j1..j2}"
| "sub_cols (SubD i1 i2) = {i1..i2}"

definition call_cols :: "potrf_call \<Rightarrow> int set" where
  "call_cols c = (case updated c of None \<Rightarrow> {} | Some s \<Rightarrow> sub_cols s)"

definition tasks_of :: "kind \<Rightarrow> 'c event list \<Rightarrow> 'c task list" where
  "tasks_of kd es = concat (map (\<lambda>e. case e of Spawn t \<Rightarrow> (if kind t = kd then [t] else [])
                                              | Taskwait \<Rightarrow> [] | Call c \<Rightarrow> []) es)"

text \<open>The columns updated by the tasks of one kind among the events of a step.\<close>

definition cols_updated :: "kind \<Rightarrow> potrf_call event list \<Rightarrow> int set" where
  "cols_updated kd es = (\<Union>t \<in> set (tasks_of kd es). \<Union>c \<in> set (body t). call_cols c)"

text \<open>Every call of a list of events, bodies of tasks included, in program order.\<close>

fun event_calls :: "'c event \<Rightarrow> 'c list" where
  "event_calls (Spawn t) = body t"
| "event_calls Taskwait = []"
| "event_calls (Call c) = [c]"

definition all_calls :: "'c event list \<Rightarrow> 'c list" where
  "all_calls es = concat (map event_calls es)"

text \<open>The diagonal-tile factorizations among a list of calls: target and operand.\<close>

fun factorization :: "potrf_call \<Rightarrow> (Target \<times> opnd) list" where
  "factorization (Potrf t a p) = [(t, a)]"
| "factorization c = []"

definition factorizations :: "potrf_call list \<Rightarrow> (Target \<times> opnd) list" where
  "factorizations cs = concat (map factorization cs)"

text \<open>The target a kernel call is dispatched to.\<close>

fun call_target :: "potrf_call \<Rightarrow> Target option" where
  "call_target (Potrf t a p) = Some t"
| "call_target (Trsm t s al a b p q) = Some t"
| "call_target (Herk t al a be c p q) = Some t"
| "call_target (Gemm t al a b be c p q) = Some t"
| "call_target c = None"

text \<open>The calls that reserve or give back device resources of the whole matrix.\<close>

fun is_resource_call :: "potrf_call \<Rightarrow> bool" where
  "is_resource_call (AllocateBatchArrays b n) = True"
| "is_resource_call ReserveDeviceWorkspace = True"
| "is_resource_call ReleaseWorkspace = True"
| "is_resource_call c = False"

text \<open>
  Two tasks are ordered by the runtime when they name a common token and at least one of
  them names it \<^verbatim>\<open>inout\<close>.
\<close>

fun dep_token :: "depend \<Rightarrow> int" where
  "dep_token (In i) = i"
| "dep_token (Inout i) = i"

fun dep_writes :: "depend \<Rightarrow> bool" where
  "dep_writes (In i) = False"
| "dep_writes (Inout i) = True"

definition ordered_by_tokens :: "'c task \<Rightarrow> 'c task \<Rightarrow> bool" where
  "ordered_by_tokens t u =
     (\<exists>d \<in> set (depends t). \<exists>e \<in> set (depends u).
        dep_token d = dep_token e \<and> (dep_writes d \<or> dep_writes e))"

text \<open>
  The serial execution of a list of events under an interpretation \<open>sem\<close> of the calls as
  state transformers: each task body runs where it is created.
\<close>

definition run :: "('c \<Rightarrow> 'st \<Rightarrow> 'st) \<Rightarrow> 'c event list \<Rightarrow> 'st \<Rightarrow> 'st" where
  "run sem es = fold sem (all_calls es)"

section \<open>Triangular solve that moves the right-hand side\<close>

subsection \<open>Operands and calls\<close>

datatype mat = MatA | MatB

text \<open>
  \<open>TSub X i1 i2 j1 j2\<close> is \<^verbatim>\<open>X.sub(i1, i2, j1, j2)\<close>; \<open>TSubD X i1 i2\<close> is the
  two-argument \<^verbatim>\<open>X.sub(i1, i2)\<close> of the triangular matrix, a diagonal block.
\<close>

datatype tsub = TSub mat int int int int | TSubD mat int int

text \<open>One entry of a \<^verbatim>\<open>ReduceList\<close> and one of a \<^verbatim>\<open>BcastList\<close>.\<close>

record reduce_entry =
  red_i :: int
  red_j :: int
  red_dest :: tsub
  red_srcs :: "tsub list"

record tbcast_entry =
  bc_i :: int
  bc_j :: int
  bc_dests :: "tsub list"

text \<open>
  The calls of \<^verbatim>\<open>trsmA\<close>. Blocks of the source that walk the tiles of a row and
  act on those the calling process owns are one call each, named after the comment that
  heads the block; which tiles a process owns is not part of the task graph.
  \<^item> \<open>ScaleRHS\<close>: the loop scaling every local tile of \<open>B\<close> by \<open>alpha\<close>; it dispatches
    on the target in the forward sweep (\<open>Some target\<close>) and runs on the host in the
    backward sweep (\<open>None\<close>).
  \<^item> \<open>CreateLocalB i1 i2 k\<close>: "create the local B tiles where A(i, k) is located", for
    rows \<open>i1..i2\<close>.
  \<^item> \<open>SendSolution k skip_root\<close>: "send the solution back to where it belongs"; the
    forward sweep skips the tiles already on the root.
  \<^item> \<open>EraseNonLocal k\<close>: the backward sweep's \<^verbatim>\<open>tileErase\<close> of row \<open>k\<close>.
  \<^item> \<open>EraseWorkspace k\<close>: the body of the forward sweep's last task of an iteration.
  \<^item> \<open>FinalRelease\<close>: the loop after the last \<^verbatim>\<open>taskwait\<close>.
  Scalars \<open>one\<close> and \<open>-one\<close> are \<open>1\<close> and \<open>-1\<close>; the last two arguments of
  \<open>InternalTrsmA\<close> and \<open>GemmA\<close> are the priority and the queue index, if passed.
\<close>

datatype 's trsmA_call =
    ScaleRHS "Target option" 's
  | CreateLocalB "Target option" int int int
  | ListReduce Target "reduce_entry list"
  | InternalTrsmA Target Side int tsub tsub int int
  | SendSolution int bool
  | EraseNonLocal int
  | ListBcast Target "tbcast_entry list" "(int \<times> int) option"
  | GemmA Target int tsub tsub int tsub int "int option"
  | EraseWorkspace int
  | FinalRelease Target

text \<open>
  The views are abstract: \<open>'ta\<close> is \<^verbatim>\<open>TriangularMatrix<scalar_t>\<close>, \<open>'mb\<close> is
  \<^verbatim>\<open>Matrix<scalar_t>\<close>, \<open>'s\<close> is \<^verbatim>\<open>scalar_t\<close>; the members the routine uses are
  parameters.
\<close>

record ('ta, 'mb, 's) trsm_ops =
  opA :: "'ta \<Rightarrow> Op"
  uploA :: "'ta \<Rightarrow> Uplo"
  mtA :: "'ta \<Rightarrow> int"
  ntA :: "'ta \<Rightarrow> int"
  numComputeQueuesA :: "'ta \<Rightarrow> int"
  transposeA :: "'ta \<Rightarrow> 'ta"
  conj_transposeA :: "'ta \<Rightarrow> 'ta"
  opB :: "'mb \<Rightarrow> Op"
  mtB :: "'mb \<Rightarrow> int"
  ntB :: "'mb \<Rightarrow> int"
  transposeB :: "'mb \<Rightarrow> 'mb"
  conj_transposeB :: "'mb \<Rightarrow> 'mb"
  s_conj :: "'s \<Rightarrow> 's"
  s_one :: 's

subsection \<open>Reduction of the right side to the left side\<close>

text \<open>
  \<^verbatim>\<open>if (side == Side::Right) { if (A.op() == Op::ConjTrans || B.op() == Op::ConjTrans)
  {...} else {...} }\<close>: the operands and the scalar the sweeps work on.
\<close>

definition to_left ::
  "('ta, 'mb, 's) trsm_ops \<Rightarrow> Side \<Rightarrow> 's \<Rightarrow> 'ta \<Rightarrow> 'mb \<Rightarrow> 's \<times> 'ta \<times> 'mb" where
  "to_left M side alpha A B =
     (if side = Right
      then (if opA M A = ConjTrans \<or> opB M B = ConjTrans
            then (s_conj M alpha, conj_transposeA M A, conj_transposeB M B)
            else (alpha, transposeA M A, transposeB M B))
      else (alpha, A, B))"

subsection \<open>Forward sweep\<close>

text \<open>\<^verbatim>\<open>for (int64_t j = 0; j < nt; ++j) reduce_list_B.push_back(...)\<close>\<close>

function reduce_list_B :: "tsub \<Rightarrow> int \<Rightarrow> int \<Rightarrow> int \<Rightarrow> reduce_entry list" where
  "reduce_list_B a_row nt k j =
     (if j < nt
      then \<lparr>red_i = k, red_j = j, red_dest = TSub MatA k k k k,
            red_srcs = [a_row, TSub MatB k k j j]\<rparr>
           # reduce_list_B a_row nt k (j+1)
      else [])"
  by pat_completeness auto
termination
  by (relation "measure (\<lambda>(a_row, nt, k, j). nat (nt - j))") auto

declare reduce_list_B.simps [simp del]

text \<open>\<^verbatim>\<open>for (int64_t j = 0; j < nt; ++j) bcast_list_upd_B.push_back(...)\<close>\<close>

function bcast_list_upd_B :: "tsub \<Rightarrow> int \<Rightarrow> int \<Rightarrow> int \<Rightarrow> tbcast_entry list" where
  "bcast_list_upd_B dest nt k j =
     (if j < nt
      then \<lparr>bc_i = k, bc_j = j, bc_dests = [dest]\<rparr> # bcast_list_upd_B dest nt k (j+1)
      else [])"
  by pat_completeness auto
termination
  by (relation "measure (\<lambda>(dest, nt, k, j). nat (nt - j))") auto

declare bcast_list_upd_B.simps [simp del]

definition trsmA_fwd_panel ::
  "Target \<Rightarrow> 's \<Rightarrow> 's \<Rightarrow> int \<Rightarrow> int \<Rightarrow> int \<Rightarrow> int \<Rightarrow> 's trsmA_call task" where
  "trsmA_fwd_panel target one alpha mt nt lookahead k =
     \<lparr>kind = Panel, depends = [Inout k], priority = 1,
      body =
        (if k = 0 \<and> alpha \<noteq> one then [ScaleRHS (Some target) alpha] else [])
        @ [CreateLocalB (Some target) k k k,
           ListReduce target (reduce_list_B (TSub MatA k k 0 k) nt k 0),
           InternalTrsmA target Left 1 (TSubD MatA k k) (TSub MatB k k 0 (nt-1)) 1 1,
           SendSolution k True,
           ListBcast target (bcast_list_upd_B (TSub MatA (k+1) (mt-1) k k) nt k 0)
             (Some (k, lookahead + 1))]\<rparr>"

text \<open>
  \<^verbatim>\<open>for (j = 0; j < nt; ++j) internal::gemmA<target>(-one, A.sub(i1, i2, k, k),
  B.sub(k, k, j, j), one, B.sub(i1, i2, j, j), layout, priority, queue, local_opts)\<close>:
  the body of the lookahead task (\<open>i1 = i2 = i\<close>) and of the trailing task.
\<close>

function gemmA_loop ::
  "Target \<Rightarrow> int \<Rightarrow> int \<Rightarrow> int \<Rightarrow> int \<Rightarrow> int \<Rightarrow> int \<Rightarrow> int \<Rightarrow> 's trsmA_call list" where
  "gemmA_loop target nt k i1 i2 prio queue j =
     (if j < nt
      then GemmA target (-1) (TSub MatA i1 i2 k k) (TSub MatB k k j j)
             1 (TSub MatB i1 i2 j j) prio (Some queue)
           # gemmA_loop target nt k i1 i2 prio queue (j+1)
      else [])"
  by pat_completeness auto
termination
  by (relation "measure (\<lambda>(target, nt, k, i1, i2, prio, queue, j). nat (nt - j))") auto

declare gemmA_loop.simps [simp del]

definition trsmA_fwd_lookahead_task ::
  "Target \<Rightarrow> int \<Rightarrow> int \<Rightarrow> int \<Rightarrow> 's trsmA_call task" where
  "trsmA_fwd_lookahead_task target nt k i =
     \<lparr>kind = LookaheadUpdate, depends = [In k, Inout i], priority = 1,
      body = (let queue_i = i - k + 1 in gemmA_loop target nt k i i 1 queue_i 0)\<rparr>"

text \<open>\<^verbatim>\<open>for (int64_t i = k+1; i < k+1+lookahead && i < mt; ++i)\<close>\<close>

function trsmA_fwd_lookahead_loop ::
  "Target \<Rightarrow> int \<Rightarrow> int \<Rightarrow> int \<Rightarrow> int \<Rightarrow> int \<Rightarrow> 's trsmA_call event list" where
  "trsmA_fwd_lookahead_loop target mt nt lookahead k i =
     (if i < k+1+lookahead \<and> i < mt
      then Spawn (trsmA_fwd_lookahead_task target nt k i)
           # trsmA_fwd_lookahead_loop target mt nt lookahead k (i+1)
      else [])"
  by pat_completeness auto
termination
  by (relation "measure (\<lambda>(target, mt, nt, lookahead, k, i). nat (mt - i))") auto

declare trsmA_fwd_lookahead_loop.simps [simp del]

definition trsmA_fwd_trailing_task ::
  "Target \<Rightarrow> int \<Rightarrow> int \<Rightarrow> int \<Rightarrow> int \<Rightarrow> 's trsmA_call task" where
  "trsmA_fwd_trailing_task target mt nt lookahead k =
     \<lparr>kind = TrailingUpdate,
      depends = [In k, Inout (k+1+lookahead), Inout (mt-1)], priority = 0,
      body = gemmA_loop target nt k (k+1+lookahead) (mt-1) 0 0 0\<rparr>"

definition trsmA_fwd_step ::
  "Target \<Rightarrow> 's \<Rightarrow> 's \<Rightarrow> int \<Rightarrow> int \<Rightarrow> int \<Rightarrow> int \<Rightarrow> 's trsmA_call event list" where
  "trsmA_fwd_step target one alpha mt nt lookahead k =
     [Spawn (trsmA_fwd_panel target one alpha mt nt lookahead k)]
     @ trsmA_fwd_lookahead_loop target mt nt lookahead k (k+1)
     @ [Taskwait]
     @ (if k+1+lookahead < mt
        then [Spawn (trsmA_fwd_trailing_task target mt nt lookahead k)]
        else [])
     @ [Spawn \<lparr>kind = Release, depends = [Inout k], priority = 0,
                body = [EraseWorkspace k]\<rparr>]"

text \<open>\<^verbatim>\<open>for (int64_t k = 0; k < mt; ++k)\<close>\<close>

function trsmA_fwd_loop ::
  "Target \<Rightarrow> 's \<Rightarrow> 's \<Rightarrow> int \<Rightarrow> int \<Rightarrow> int \<Rightarrow> int \<Rightarrow> (int \<times> 's trsmA_call event list) list"
  where
  "trsmA_fwd_loop target one alpha mt nt lookahead k =
     (if k < mt
      then (k, trsmA_fwd_step target one alpha mt nt lookahead k)
           # trsmA_fwd_loop target one alpha mt nt lookahead (k+1)
      else [])"
  by pat_completeness auto
termination
  by (relation "measure (\<lambda>(target, one, alpha, mt, nt, lookahead, k). nat (mt - k))") auto

declare trsmA_fwd_loop.simps [simp del]

subsection \<open>Backward sweep\<close>

definition trsmA_bwd_panel ::
  "Target \<Rightarrow> 's \<Rightarrow> 's \<Rightarrow> int \<Rightarrow> int \<Rightarrow> int \<Rightarrow> 's trsmA_call task" where
  "trsmA_bwd_panel target one alpha mt nt k =
     \<lparr>kind = Panel, depends = [Inout k], priority = 1,
      body =
        (if k = mt - 1 \<and> alpha \<noteq> one then [ScaleRHS None alpha] else [])
        @ [CreateLocalB None k k k,
           ListReduce target (reduce_list_B (TSub MatA k k k (mt-1)) nt k 0),
           InternalTrsmA target Left 1 (TSubD MatA k k) (TSub MatB k k 0 (nt-1)) 1 1,
           SendSolution k False,
           EraseNonLocal k,
           ListBcast target (bcast_list_upd_B (TSub MatA 0 (k-1) k k) nt k 0) None]\<rparr>"

definition trsmA_bwd_lookahead_task :: "int \<Rightarrow> int \<Rightarrow> int \<Rightarrow> 's trsmA_call task" where
  "trsmA_bwd_lookahead_task nt k i =
     \<lparr>kind = LookaheadUpdate, depends = [In k, Inout i], priority = 1,
      body =
        [CreateLocalB None i i k,
         GemmA HostTask (-1) (TSub MatA i i k k) (TSub MatB k k 0 (nt-1))
           1 (TSub MatB i i 0 (nt-1)) 1 None]\<rparr>"

text \<open>\<^verbatim>\<open>for (int64_t i = k-1; i > k-1-lookahead && i >= 0; --i)\<close>\<close>

function trsmA_bwd_lookahead_loop ::
  "int \<Rightarrow> int \<Rightarrow> int \<Rightarrow> int \<Rightarrow> 's trsmA_call event list" where
  "trsmA_bwd_lookahead_loop nt lookahead k i =
     (if i > k-1-lookahead \<and> i \<ge> 0
      then Spawn (trsmA_bwd_lookahead_task nt k i)
           # trsmA_bwd_lookahead_loop nt lookahead k (i-1)
      else [])"
  by pat_completeness auto
termination
  by (relation "measure (\<lambda>(nt, lookahead, k, i). nat (i + 1))") auto

declare trsmA_bwd_lookahead_loop.simps [simp del]

definition trsmA_bwd_trailing_task :: "int \<Rightarrow> int \<Rightarrow> int \<Rightarrow> 's trsmA_call task" where
  "trsmA_bwd_trailing_task nt lookahead k =
     \<lparr>kind = TrailingUpdate,
      depends = [In k, Inout (k-1-lookahead), Inout 0], priority = 0,
      body =
        [CreateLocalB None 0 (k - lookahead - 1) k,
         GemmA HostTask (-1) (TSub MatA 0 (k-1-lookahead) k k) (TSub MatB k k 0 (nt-1))
           1 (TSub MatB 0 (k-1-lookahead) 0 (nt-1)) 0 None]\<rparr>"

definition trsmA_bwd_step ::
  "Target \<Rightarrow> 's \<Rightarrow> 's \<Rightarrow> int \<Rightarrow> int \<Rightarrow> int \<Rightarrow> int \<Rightarrow> 's trsmA_call event list" where
  "trsmA_bwd_step target one alpha mt nt lookahead k =
     [Spawn (trsmA_bwd_panel target one alpha mt nt k)]
     @ trsmA_bwd_lookahead_loop nt lookahead k (k-1)
     @ (if k-1-lookahead \<ge> 0
        then [Spawn (trsmA_bwd_trailing_task nt lookahead k)]
        else [])"

text \<open>\<^verbatim>\<open>for (int64_t k = mt-1; k >= 0; --k)\<close>\<close>

function trsmA_bwd_loop ::
  "Target \<Rightarrow> 's \<Rightarrow> 's \<Rightarrow> int \<Rightarrow> int \<Rightarrow> int \<Rightarrow> int \<Rightarrow> (int \<times> 's trsmA_call event list) list"
  where
  "trsmA_bwd_loop target one alpha mt nt lookahead k =
     (if k \<ge> 0
      then (k, trsmA_bwd_step target one alpha mt nt lookahead k)
           # trsmA_bwd_loop target one alpha mt nt lookahead (k-1)
      else [])"
  by pat_completeness auto
termination
  by (relation "measure (\<lambda>(target, one, alpha, mt, nt, lookahead, k). nat (k + 1))") auto

declare trsmA_bwd_loop.simps [simp del]

subsection \<open>The routine\<close>

datatype failure = AssertionFailed

text \<open>
  The result: the scalar and the views after the reduction to the left side, the
  iterations of the row loop in the order they ran, each with its \<open>k\<close>, and the events
  after the loop.
\<close>

record ('ta, 'mb, 's) trsmA_result =
  r_alpha :: 's
  r_A :: 'ta
  r_B :: 'mb
  r_steps :: "(int \<times> 's trsmA_call event list) list"
  r_after :: "'s trsmA_call event list"

definition trsmA ::
  "Target \<Rightarrow> ('ta, 'mb, 's) trsm_ops \<Rightarrow> Side \<Rightarrow> 's \<Rightarrow> 'ta \<Rightarrow> 'mb \<Rightarrow> Options
   \<Rightarrow> failure + ('ta, 'mb, 's) trsmA_result" where
  "trsmA target M side alpha A B opts =
     (let lookahead = get_option (opt_Lookahead opts) 1;
          (alpha1, A1, B1) = to_left M side alpha A B
      in if mtA M A1 \<noteq> mtB M B1 then Inl AssertionFailed
         else if ntA M A1 \<noteq> mtB M B1 then Inl AssertionFailed
         else
           let mt = mtB M B1;
               nt = ntB M B1
           in if target = Devices \<and> \<not> numComputeQueuesA M A1 \<ge> 2
              then Inl AssertionFailed
              else Inr \<lparr>r_alpha = alpha1, r_A = A1, r_B = B1,
                        r_steps =
                          (if uploA M A1 = Lower
                           then trsmA_fwd_loop target (s_one M) alpha1 mt nt lookahead 0
                           else trsmA_bwd_loop target (s_one M) alpha1 mt nt lookahead (mt-1)),
                        r_after = [Taskwait, Call (FinalRelease target)]\<rparr>)"

text \<open>The tile rows of \<open>B\<close> a call updates.\<close>

fun tsub_rows :: "tsub \<Rightarrow> int set" where
  "tsub_rows (TSub X i1 i2 j1 j2) = {i1..i2}"
| "tsub_rows (TSubD X i1 i2) = {i1..i2}"

fun rows_of_call :: "'s trsmA_call \<Rightarrow> int set" where
  "rows_of_call (GemmA t al a b be c p q) = tsub_rows c"
| "rows_of_call (InternalTrsmA t s al a b p q) = tsub_rows b"
| "rows_of_call c = {}"

definition rows_updated :: "kind \<Rightarrow> 's trsmA_call event list \<Rightarrow> int set" where
  "rows_updated kd es = (\<Union>t \<in> set (tasks_of kd es). \<Union>c \<in> set (body t). rows_of_call c)"

section \<open>Divide-and-conquer eigensolver driver\<close>

datatype Norm = NormMax | NormOne | NormInf | NormFro

datatype MatrixType = MT_General | MT_Lower | MT_Upper

datatype exn = DomainError

text \<open>
  \<open>'r\<close> is \<^verbatim>\<open>real_t\<close> (a floating-point type) and \<open>'m\<close> is
  \<^verbatim>\<open>Matrix<real_t>\<close>. The arithmetic and the routines \<^verbatim>\<open>stedc\<close> calls are
  parameters, with their arguments in source order: \<^verbatim>\<open>lapack::lanst\<close>,
  \<^verbatim>\<open>lapack::lascl\<close> (type, kl, ku, cfrom, cto, m, n, the array, lda),
  \<^verbatim>\<open>Q.emptyLike()\<close> followed by \<^verbatim>\<open>insertLocalTiles()\<close>, \<^verbatim>\<open>set\<close>,
  \<^verbatim>\<open>stedc_solve\<close> (which works on \<open>D\<close>, \<open>E\<close> and its three matrices) and
  \<^verbatim>\<open>stedc_sort\<close>; \<open>r_eq\<close> is the comparison \<^verbatim>\<open>==\<close> of \<open>real_t\<close>.
\<close>

record ('r, 'm) stedc_ops =
  r_zero :: 'r
  r_one :: 'r
  r_eq :: "'r \<Rightarrow> 'r \<Rightarrow> bool"
  r_isinf :: "'r \<Rightarrow> bool"
  r_isnan :: "'r \<Rightarrow> bool"
  lanst :: "Norm \<Rightarrow> int \<Rightarrow> 'r list \<Rightarrow> 'r list \<Rightarrow> 'r"
  lascl :: "MatrixType \<Rightarrow> int \<Rightarrow> int \<Rightarrow> 'r \<Rightarrow> 'r \<Rightarrow> int \<Rightarrow> int \<Rightarrow> 'r list \<Rightarrow> int \<Rightarrow> 'r list"
  emptyLike_insertLocalTiles :: "'m \<Rightarrow> 'm"
  set_matrix :: "'r \<Rightarrow> 'r \<Rightarrow> 'm \<Rightarrow> Options \<Rightarrow> 'm"
  stedc_solve :: "'r list \<Rightarrow> 'r list \<Rightarrow> 'm \<Rightarrow> 'm \<Rightarrow> 'm \<Rightarrow> Options
                  \<Rightarrow> 'r list \<times> 'r list \<times> 'm \<times> 'm \<times> 'm"
  stedc_sort :: "'r list \<Rightarrow> 'm \<Rightarrow> 'm \<Rightarrow> Options \<Rightarrow> 'r list \<times> 'm \<times> 'm"

text \<open>
  The outcome: the exception thrown, if any, and \<open>D\<close>, \<open>E\<close>, \<open>Q\<close> as the caller finds
  them afterwards (they are passed by reference).
\<close>

record ('r, 'm) stedc_result =
  thrown :: "exn option"
  D_out :: "'r list"
  E_out :: "'r list"
  Q_out :: 'm

definition stedc ::
  "('r, 'm) stedc_ops \<Rightarrow> 'r list \<Rightarrow> 'r list \<Rightarrow> 'm \<Rightarrow> Options \<Rightarrow> ('r, 'm) stedc_result" where
  "stedc K D E Q opts =
     (let n = int (length D);
          zero = r_zero K;
          one = r_one K;
          Anorm = lanst K NormMax n D E
      in if r_eq K Anorm zero
         then \<lparr>thrown = None, D_out = D, E_out = E, Q_out = Q\<rparr>
         else if r_isinf K Anorm \<or> r_isnan K Anorm
         then \<lparr>thrown = Some DomainError, D_out = D, E_out = E, Q_out = Q\<rparr>
         else
           let D1 = lascl K MT_General 0 0 Anorm one n 1 D n;
               E1 = lascl K MT_General 0 0 Anorm one (n-1) 1 E (n-1);
               W = emptyLike_insertLocalTiles K Q;
               U = emptyLike_insertLocalTiles K Q;
               sort = True;
               (D3, E3, Q3) =
                 (if sort
                  then let W1 = set_matrix K zero one W opts;
                           (D2, E2, W2, Q2, U2) = stedc_solve K D1 E1 W1 Q U opts;
                           (D3, W3, Q3) = stedc_sort K D2 W2 Q2 opts
                       in (D3, E2, Q3)
                  else let Q1 = set_matrix K zero one Q opts;
                           (D2, E2, Q2, W2, U2) = stedc_solve K D1 E1 Q1 W U opts
                       in (D2, E2, Q2));
               D4 = lascl K MT_General 0 0 one Anorm n 1 D3 n
           in \<lparr>thrown = None, D_out = D4, E_out = E3, Q_out = Q3\<rparr>)"

section \<open>LAPACK-style entry point of the linear solve\<close>

text \<open>
  \<^verbatim>\<open>slate_gesv\<close> wraps the caller's arrays, calls \<^verbatim>\<open>slate::gesv\<close> (a parameter
  here: it returns the overwritten \<open>A\<close> and \<open>B\<close> and the pivots) and writes
  \<open>ipiv\<close> and \<open>info\<close>. The settings it reads from the environment once
  (\<^verbatim>\<open>slate_lapack_set_target\<close>, \<^verbatim>\<open>..._panelthreads\<close>, \<^verbatim>\<open>..._nb\<close>,
  \<^verbatim>\<open>..._ib\<close>) are the record \<open>lapack_env\<close>.
\<close>

record lapack_env =
  env_target :: Target
  env_panel_threads :: int
  env_nb :: "Target \<Rightarrow> int"
  env_ib :: int

record 's lapack_matrix =
  lm_m :: int
  lm_n :: int
  lm_data :: "'s list"
  lm_ld :: int
  lm_nb :: int
  lm_p :: int
  lm_q :: int

record gesv_options =
  go_Lookahead :: int
  go_Target :: Target
  go_MaxPanelThreads :: int
  go_InnerBlocking :: int

record Pivot =
  tileIndex :: int
  elementOffset :: int

text \<open>
  The two loops that copy the pivots: the state is the array \<open>ipiv\<close> and the counter
  \<open>p_count\<close>. The entries of \<open>ipiv\<close> are \<^verbatim>\<open>int\<close>: the \<^verbatim>\<open>int64_t\<close> sum is
  reduced to 32 bits when it is stored. A write past the end of the caller's array is
  undefined in the source and leaves the list unchanged here.
\<close>

fun extract_tile :: "int \<Rightarrow> int \<Rightarrow> Pivot list \<Rightarrow> int list \<times> nat \<Rightarrow> int list \<times> nat" where
  "extract_tile nb t_iter_add [] (ipiv, p_count) = (ipiv, p_count)"
| "extract_tile nb t_iter_add (p # ps) (ipiv, p_count) =
     extract_tile nb t_iter_add ps
       (ipiv[p_count := to_int32 (tileIndex p * nb + elementOffset p + 1 + t_iter_add)],
        p_count + 1)"

fun extract_pivots :: "int \<Rightarrow> int \<Rightarrow> Pivot list list \<Rightarrow> int list \<times> nat \<Rightarrow> int list \<times> nat"
  where
  "extract_pivots nb t_iter_add [] st = st"
| "extract_pivots nb t_iter_add (t # ts) st =
     extract_pivots nb (t_iter_add + nb) ts (extract_tile nb t_iter_add t st)"

record 's gesv_result =
  a_out :: "'s list"
  ipiv_out :: "int list"
  b_out :: "'s list"
  info_out :: int

definition slate_gesv ::
  "lapack_env
   \<Rightarrow> ('s lapack_matrix \<Rightarrow> 's lapack_matrix \<Rightarrow> gesv_options
        \<Rightarrow> 's lapack_matrix \<times> Pivot list list \<times> 's lapack_matrix)
   \<Rightarrow> int \<Rightarrow> int \<Rightarrow> 's list \<Rightarrow> int \<Rightarrow> int list \<Rightarrow> 's list \<Rightarrow> int \<Rightarrow> 's gesv_result" where
  "slate_gesv env gesv n nrhs a lda ipiv b ldb =
     (let lookahead = 1;
          p = 1;
          q = 1;
          target = env_target env;
          panel_threads = env_panel_threads env;
          Am = n; An = n;
          Bm = n; Bn = nrhs;
          nb = env_nb env target;
          ib = min (env_ib env) nb;
          A = \<lparr>lm_m = Am, lm_n = An, lm_data = a, lm_ld = lda, lm_nb = nb, lm_p = p, lm_q = q\<rparr>;
          B = \<lparr>lm_m = Bm, lm_n = Bn, lm_data = b, lm_ld = ldb, lm_nb = nb, lm_p = p, lm_q = q\<rparr>;
          (A1, pivots, B1) =
            gesv A B \<lparr>go_Lookahead = lookahead, go_Target = target,
                      go_MaxPanelThreads = panel_threads, go_InnerBlocking = ib\<rparr>;
          (ipiv1, p_count) = extract_pivots nb 0 pivots (ipiv, 0);
          info = 0
      in \<lparr>a_out = lm_data A1, ipiv_out = ipiv1, b_out = lm_data B1, info_out = info\<rparr>)"

section \<open>Properties stated about the sweeps\<close>

text \<open>
  At step \<open>k\<close> of a sweep over \<open>mt\<close> columns, the columns \<open>L\<close> updated by the
  lookahead tasks and the columns \<open>T\<close> updated by the trailing task are the two index
  ranges, are disjoint, and cover the columns after \<open>k\<close>.
\<close>

definition disjoint_cover :: "int \<Rightarrow> int \<Rightarrow> int \<Rightarrow> int set \<Rightarrow> int set \<Rightarrow> bool" where
  "disjoint_cover mt lookahead k L T \<longleftrightarrow>
     L = {k+1..min (k+lookahead) (mt-1)} \<and> T = {k+1+lookahead..mt-1} \<and>
     L \<inter> T = {} \<and> L \<union> T = {k+1..mt-1}"

text \<open>A call of the single-tile factorization kernel.\<close>

fun is_factorization :: "potrf_call \<Rightarrow> bool" where
  "is_factorization (Potrf t a p) = True"
| "is_factorization c = False"

section \<open>Sample instantiations\<close>

text \<open>
  Concrete parameters on which the theorems below are exercised. For the triangular
  solve: a view of the triangular matrix is its stored half and its transform, a
  transposition flips the half, every matrix has three tile rows, and the conjugate of
  a scalar is modelled by its negative (so that it shows).
\<close>

fun flip :: "Uplo \<Rightarrow> Uplo" where
  "flip Lower = Upper"
| "flip Upper = Lower"
| "flip General = General"

definition sample_trsm_ops :: "(Uplo \<times> Op, Op, int) trsm_ops" where
  "sample_trsm_ops =
     \<lparr>opA = snd, uploA = fst, mtA = \<lambda>A. 3, ntA = \<lambda>A. 3, numComputeQueuesA = \<lambda>A. 2,
      transposeA = \<lambda>(u, p). (flip u, Trans), conj_transposeA = \<lambda>(u, p). (flip u, ConjTrans),
      opB = \<lambda>B. B, mtB = \<lambda>B. 3, ntB = \<lambda>B. 1,
      transposeB = \<lambda>B. Trans, conj_transposeB = \<lambda>B. ConjTrans,
      s_conj = \<lambda>x. - x, s_one = 1\<rparr>"

text \<open>
  For the eigensolver driver: numbers that are a rational, infinite or not a number, with
  the comparisons of floating-point arithmetic and exact scaling; the solver and the
  sorting step are left as the identity.
\<close>

datatype fp = Finite rat | Infinity | NaN

fun fp_eq :: "fp \<Rightarrow> fp \<Rightarrow> bool" where
  "fp_eq (Finite a) (Finite b) = (a = b)"
| "fp_eq Infinity Infinity = True"
| "fp_eq x y = False"

fun fp_abs :: "fp \<Rightarrow> fp" where
  "fp_abs (Finite a) = Finite \<bar>a\<bar>"
| "fp_abs x = x"

fun fp_max :: "fp \<Rightarrow> fp \<Rightarrow> fp" where
  "fp_max NaN y = NaN"
| "fp_max x NaN = NaN"
| "fp_max Infinity y = Infinity"
| "fp_max x Infinity = Infinity"
| "fp_max (Finite a) (Finite b) = Finite (max a b)"

fun fp_scale :: "fp \<Rightarrow> fp \<Rightarrow> fp \<Rightarrow> fp" where
  "fp_scale (Finite cfrom) (Finite cto) (Finite x) = Finite (x * cto / cfrom)"
| "fp_scale cfrom cto x = NaN"

definition sample_stedc_ops :: "(fp, unit) stedc_ops" where
  "sample_stedc_ops =
     \<lparr>r_zero = Finite 0, r_one = Finite 1, r_eq = fp_eq,
      r_isinf = (\<lambda>x. x = Infinity), r_isnan = (\<lambda>x. x = NaN),
      lanst = (\<lambda>nrm n D E. fold (\<lambda>x m. fp_max (fp_abs x) m) (D @ E) (Finite 0)),
      lascl = (\<lambda>ty kl ku cfrom cto m n xs lda. map (fp_scale cfrom cto) xs),
      emptyLike_insertLocalTiles = (\<lambda>Q. Q),
      set_matrix = (\<lambda>a b Q opts. Q),
      stedc_solve = (\<lambda>D E W Q U opts. (D, E, W, Q, U)),
      stedc_sort = (\<lambda>D W Q opts. (D, W, Q))\<rparr>"

definition no_options :: Options where
  "no_options = \<lparr>opt_Lookahead = None, opt_Target = None, opt_TileReleaseStrategy = None\<rparr>"

section \<open>The loops as maps over index ranges\<close>

lemma upto_Cons_less: "i < n \<Longrightarrow> [i..n-1] = i # [i+1..n-1]"
  by (simp add: upto_rec1)

lemma bcast_list_A_map:
  "bcast_list_A A_nt k i =
     map (\<lambda>i. \<lparr>src_i = i, src_j = k, dests = [Sub i i (k+1) i, Sub i (A_nt-1) i i], tag = i\<rparr>)
       [i..A_nt-1]"
proof (induction A_nt k i rule: bcast_list_A.induct)
  case (1 A_nt k i)
  show ?case
  proof (cases "i < A_nt")
    case True
    with 1 show ?thesis by (subst bcast_list_A.simps) (simp add: upto_Cons_less)
  next
    case False
    then show ?thesis by (subst bcast_list_A.simps) simp
  qed
qed

lemma potrf_lookahead_loop_map:
  "potrf_lookahead_loop A_nt lookahead k j =
     map (\<lambda>j. Spawn (potrf_lookahead_task A_nt k j)) [j..min (k+lookahead) (A_nt-1)]"
proof (induction A_nt lookahead k j rule: potrf_lookahead_loop.induct)
  case (1 A_nt lookahead k j)
  show ?case
  proof (cases "j < k+1+lookahead \<and> j < A_nt")
    case True
    then have "j \<le> min (k+lookahead) (A_nt-1)" by simp
    then have "[j..min (k+lookahead) (A_nt-1)] = j # [j+1..min (k+lookahead) (A_nt-1)]"
      by (rule upto_rec1)
    with True 1 show ?thesis by (subst potrf_lookahead_loop.simps) simp
  next
    case False
    then have "min (k+lookahead) (A_nt-1) < j" by auto
    with False show ?thesis by (subst potrf_lookahead_loop.simps) simp
  qed
qed

lemma potrf_devices_lookahead_loop_map:
  "potrf_devices_lookahead_loop A_nt lookahead k j =
     map (\<lambda>j. Spawn (potrf_devices_lookahead_task A_nt k j)) [j..min (k+lookahead) (A_nt-1)]"
proof (induction A_nt lookahead k j rule: potrf_devices_lookahead_loop.induct)
  case (1 A_nt lookahead k j)
  show ?case
  proof (cases "j < k+1+lookahead \<and> j < A_nt")
    case True
    then have "j \<le> min (k+lookahead) (A_nt-1)" by simp
    then have "[j..min (k+lookahead) (A_nt-1)] = j # [j+1..min (k+lookahead) (A_nt-1)]"
      by (rule upto_rec1)
    with True 1 show ?thesis by (subst potrf_devices_lookahead_loop.simps) simp
  next
    case False
    then have "min (k+lookahead) (A_nt-1) < j" by auto
    with False show ?thesis by (subst potrf_devices_lookahead_loop.simps) simp
  qed
qed

lemma potrf_loop_map:
  "potrf_loop target A_nt lookahead k =
     map (\<lambda>k. (k, potrf_step target A_nt lookahead k)) [k..A_nt-1]"
proof (induction target A_nt lookahead k rule: potrf_loop.induct)
  case (1 target A_nt lookahead k)
  show ?case
  proof (cases "k < A_nt")
    case True
    with 1 show ?thesis by (subst potrf_loop.simps) (simp add: upto_Cons_less)
  next
    case False
    then show ?thesis by (subst potrf_loop.simps) simp
  qed
qed

lemma potrf_devices_loop_map:
  "potrf_devices_loop trs A_nt lookahead k =
     map (\<lambda>k. (k, potrf_devices_step trs A_nt lookahead k)) [k..A_nt-1]"
proof (induction trs A_nt lookahead k rule: potrf_devices_loop.induct)
  case (1 trs A_nt lookahead k)
  show ?case
  proof (cases "k < A_nt")
    case True
    with 1 show ?thesis by (subst potrf_devices_loop.simps) (simp add: upto_Cons_less)
  next
    case False
    then show ?thesis by (subst potrf_devices_loop.simps) simp
  qed
qed

subsection \<open>Tasks of a kind\<close>

lemma tasks_of_Nil: "tasks_of kd [] = []"
  by (simp add: tasks_of_def)

lemma tasks_of_append: "tasks_of kd (xs @ ys) = tasks_of kd xs @ tasks_of kd ys"
  by (simp add: tasks_of_def)

lemma tasks_of_Spawn:
  "tasks_of kd (Spawn t # es) = (if kind t = kd then t # tasks_of kd es else tasks_of kd es)"
  by (simp add: tasks_of_def)

lemma tasks_of_Taskwait: "tasks_of kd (Taskwait # es) = tasks_of kd es"
  by (simp add: tasks_of_def)

lemma tasks_of_Call: "tasks_of kd (Call c # es) = tasks_of kd es"
  by (simp add: tasks_of_def)

lemma tasks_of_map_Spawn:
  "(\<And>x. kind (f x) = kd') \<Longrightarrow>
   tasks_of kd (map (\<lambda>x. Spawn (f x)) xs) = (if kd = kd' then map f xs else [])"
  by (induction xs) (auto simp: tasks_of_def)

lemmas tasks_of_simps =
  tasks_of_Nil tasks_of_append tasks_of_Spawn tasks_of_Taskwait tasks_of_Call

lemma kind_potrf_panel: "kind (potrf_panel A_nt k) = Panel"
  by (simp add: potrf_panel_def)

lemma kind_potrf_lookahead_task: "kind (potrf_lookahead_task A_nt k j) = LookaheadUpdate"
  by (simp add: potrf_lookahead_task_def)

lemma kind_potrf_trailing_task: "kind (potrf_trailing_task target A_nt lookahead k) = TrailingUpdate"
  by (simp add: potrf_trailing_task_def)

lemma kind_potrf_devices_panel: "kind (potrf_devices_panel A_nt sh k) = Panel"
  by (simp add: potrf_devices_panel_def)

lemma kind_potrf_devices_lookahead_task:
  "kind (potrf_devices_lookahead_task A_nt k j) = LookaheadUpdate"
  by (simp add: potrf_devices_lookahead_task_def)

lemma kind_potrf_devices_trailing_task:
  "kind (potrf_devices_trailing_task A_nt lookahead k) = TrailingUpdate"
  by (simp add: potrf_devices_trailing_task_def)

lemmas potrf_kinds =
  kind_potrf_panel kind_potrf_lookahead_task kind_potrf_trailing_task
  kind_potrf_devices_panel kind_potrf_devices_lookahead_task kind_potrf_devices_trailing_task

lemma tasks_of_potrf_lookahead_loop:
  "tasks_of kd (potrf_lookahead_loop A_nt lookahead k j) =
     (if kd = LookaheadUpdate
      then map (potrf_lookahead_task A_nt k) [j..min (k+lookahead) (A_nt-1)] else [])"
  unfolding potrf_lookahead_loop_map
  by (rule tasks_of_map_Spawn) (rule kind_potrf_lookahead_task)

lemma tasks_of_potrf_devices_lookahead_loop:
  "tasks_of kd (potrf_devices_lookahead_loop A_nt lookahead k j) =
     (if kd = LookaheadUpdate
      then map (potrf_devices_lookahead_task A_nt k) [j..min (k+lookahead) (A_nt-1)] else [])"
  unfolding potrf_devices_lookahead_loop_map
  by (rule tasks_of_map_Spawn) (rule kind_potrf_devices_lookahead_task)

lemma tasks_of_potrf_devices_release:
  "kd \<noteq> Release \<Longrightarrow> tasks_of kd (potrf_devices_release trs lookahead k) = []"
  by (simp add: potrf_devices_release_def tasks_of_simps)

lemma lookahead_tasks_potrf_step:
  "tasks_of LookaheadUpdate (potrf_step target A_nt lookahead k) =
     map (potrf_lookahead_task A_nt k) [k+1..min (k+lookahead) (A_nt-1)]"
  by (simp add: potrf_step_def tasks_of_simps tasks_of_potrf_lookahead_loop potrf_kinds)

lemma trailing_tasks_potrf_step:
  "tasks_of TrailingUpdate (potrf_step target A_nt lookahead k) =
     (if k+1+lookahead < A_nt then [potrf_trailing_task target A_nt lookahead k] else [])"
  by (simp add: potrf_step_def tasks_of_simps tasks_of_potrf_lookahead_loop potrf_kinds)

lemma lookahead_tasks_potrf_devices_step:
  "tasks_of LookaheadUpdate (potrf_devices_step trs A_nt lookahead k) =
     map (potrf_devices_lookahead_task A_nt k) [k+1..min (k+lookahead) (A_nt-1)]"
  by (simp add: potrf_devices_step_def tasks_of_simps tasks_of_potrf_devices_lookahead_loop
      tasks_of_potrf_devices_release potrf_kinds)

lemma trailing_tasks_potrf_devices_step:
  "tasks_of TrailingUpdate (potrf_devices_step trs A_nt lookahead k) =
     (if k+1+lookahead < A_nt then [potrf_devices_trailing_task A_nt lookahead k] else [])"
  by (simp add: potrf_devices_step_def tasks_of_simps tasks_of_potrf_devices_lookahead_loop
      tasks_of_potrf_devices_release potrf_kinds)

subsection \<open>Columns updated by the tasks of the factorization\<close>

lemma cols_potrf_lookahead_task:
  "(\<Union>c \<in> set (body (potrf_lookahead_task A_nt k j)). call_cols c) = {j}"
  by (simp add: potrf_lookahead_task_def call_cols_def)

lemma cols_potrf_devices_lookahead_task:
  "(\<Union>c \<in> set (body (potrf_devices_lookahead_task A_nt k j)). call_cols c) = {j}"
  by (simp add: potrf_devices_lookahead_task_def call_cols_def)

lemma cols_potrf_trailing_task:
  "(\<Union>c \<in> set (body (potrf_trailing_task target A_nt lookahead k)). call_cols c)
     = {k+1+lookahead..A_nt-1}"
  by (simp add: potrf_trailing_task_def call_cols_def)

lemma cols_potrf_devices_trailing_task:
  "(\<Union>c \<in> set (body (potrf_devices_trailing_task A_nt lookahead k)). call_cols c)
     = {k+1+lookahead..A_nt-1}"
  by (simp add: potrf_devices_trailing_task_def call_cols_def)

lemma lookahead_cols_potrf_step:
  "cols_updated LookaheadUpdate (potrf_step target A_nt lookahead k)
     = {k+1..min (k+lookahead) (A_nt-1)}"
  unfolding cols_updated_def lookahead_tasks_potrf_step
  by (simp add: cols_potrf_lookahead_task)

lemma trailing_cols_potrf_step:
  "cols_updated TrailingUpdate (potrf_step target A_nt lookahead k) = {k+1+lookahead..A_nt-1}"
  unfolding cols_updated_def trailing_tasks_potrf_step
  by (simp add: cols_potrf_trailing_task)

lemma lookahead_cols_potrf_devices_step:
  "cols_updated LookaheadUpdate (potrf_devices_step trs A_nt lookahead k)
     = {k+1..min (k+lookahead) (A_nt-1)}"
  unfolding cols_updated_def lookahead_tasks_potrf_devices_step
  by (simp add: cols_potrf_devices_lookahead_task)

lemma trailing_cols_potrf_devices_step:
  "cols_updated TrailingUpdate (potrf_devices_step trs A_nt lookahead k)
     = {k+1+lookahead..A_nt-1}"
  unfolding cols_updated_def trailing_tasks_potrf_devices_step
  by (simp add: cols_potrf_devices_trailing_task)

lemma partition_cols:
  fixes k la mt :: int
  assumes "0 \<le> la"
  shows "{k+1..min (k+la) (mt-1)} \<inter> {k+1+la..mt-1} = {}"
    and "{k+1..min (k+la) (mt-1)} \<union> {k+1+la..mt-1} = {k+1..mt-1}"
  using assms by auto


subsection \<open>The loops and tasks of the triangular solve\<close>

lemma gemmA_loop_map:
  "gemmA_loop target nt k i1 i2 prio queue j =
     map (\<lambda>j. GemmA target (-1) (TSub MatA i1 i2 k k) (TSub MatB k k j j)
                 1 (TSub MatB i1 i2 j j) prio (Some queue)) [j..nt-1]"
proof (induction target nt k i1 i2 prio queue j rule: gemmA_loop.induct)
  case (1 target nt k i1 i2 prio queue j)
  show ?case
  proof (cases "j < nt")
    case True
    with 1 show ?thesis by (subst gemmA_loop.simps) (simp add: upto_Cons_less)
  next
    case False
    then show ?thesis by (subst gemmA_loop.simps) simp
  qed
qed

lemma trsmA_fwd_lookahead_loop_map:
  "trsmA_fwd_lookahead_loop target mt nt lookahead k i =
     map (\<lambda>i. Spawn (trsmA_fwd_lookahead_task target nt k i)) [i..min (k+lookahead) (mt-1)]"
proof (induction target mt nt lookahead k i rule: trsmA_fwd_lookahead_loop.induct)
  case (1 target mt nt lookahead k i)
  show ?case
  proof (cases "i < k+1+lookahead \<and> i < mt")
    case True
    then have "i \<le> min (k+lookahead) (mt-1)" by simp
    then have "[i..min (k+lookahead) (mt-1)] = i # [i+1..min (k+lookahead) (mt-1)]"
      by (rule upto_rec1)
    with True 1 show ?thesis by (subst trsmA_fwd_lookahead_loop.simps) simp
  next
    case False
    then have "min (k+lookahead) (mt-1) < i" by auto
    with False show ?thesis by (subst trsmA_fwd_lookahead_loop.simps) simp
  qed
qed

lemma trsmA_fwd_loop_map:
  "trsmA_fwd_loop target one alpha mt nt lookahead k =
     map (\<lambda>k. (k, trsmA_fwd_step target one alpha mt nt lookahead k)) [k..mt-1]"
proof (induction target one alpha mt nt lookahead k rule: trsmA_fwd_loop.induct)
  case (1 target one alpha mt nt lookahead k)
  show ?case
  proof (cases "k < mt")
    case True
    with 1 show ?thesis by (subst trsmA_fwd_loop.simps) (simp add: upto_Cons_less)
  next
    case False
    then show ?thesis by (subst trsmA_fwd_loop.simps) simp
  qed
qed

lemma trsmA_bwd_loop_map:
  "trsmA_bwd_loop target one alpha mt nt lookahead k =
     map (\<lambda>k. (k, trsmA_bwd_step target one alpha mt nt lookahead k)) (rev [0..k])"
proof (induction target one alpha mt nt lookahead k rule: trsmA_bwd_loop.induct)
  case (1 target one alpha mt nt lookahead k)
  show ?case
  proof (cases "k \<ge> 0")
    case True
    then have "[0..k] = [0..k-1] @ [k]" by (rule upto_rec2)
    with True 1 show ?thesis by (subst trsmA_bwd_loop.simps) simp
  next
    case False
    then show ?thesis by (subst trsmA_bwd_loop.simps) simp
  qed
qed

lemma tasks_of_trsmA_bwd_lookahead_loop:
  "kd \<noteq> LookaheadUpdate \<Longrightarrow> tasks_of kd (trsmA_bwd_lookahead_loop nt lookahead k i) = []"
proof (induction nt lookahead k i rule: trsmA_bwd_lookahead_loop.induct)
  case (1 nt lookahead k i)
  then show ?case
    by (subst trsmA_bwd_lookahead_loop.simps)
       (simp add: tasks_of_simps trsmA_bwd_lookahead_task_def)
qed

lemma kind_trsmA_fwd_panel: "kind (trsmA_fwd_panel target one alpha mt nt lookahead k) = Panel"
  by (simp add: trsmA_fwd_panel_def)

lemma kind_trsmA_fwd_lookahead_task:
  "kind (trsmA_fwd_lookahead_task target nt k i) = LookaheadUpdate"
  by (simp add: trsmA_fwd_lookahead_task_def)

lemma kind_trsmA_fwd_trailing_task:
  "kind (trsmA_fwd_trailing_task target mt nt lookahead k) = TrailingUpdate"
  by (simp add: trsmA_fwd_trailing_task_def)

lemma kind_trsmA_bwd_panel: "kind (trsmA_bwd_panel target one alpha mt nt k) = Panel"
  by (simp add: trsmA_bwd_panel_def)

lemma kind_trsmA_bwd_trailing_task:
  "kind (trsmA_bwd_trailing_task nt lookahead k) = TrailingUpdate"
  by (simp add: trsmA_bwd_trailing_task_def)

lemmas trsmA_kinds =
  kind_trsmA_fwd_panel kind_trsmA_fwd_lookahead_task kind_trsmA_fwd_trailing_task
  kind_trsmA_bwd_panel kind_trsmA_bwd_trailing_task

lemma tasks_of_trsmA_fwd_lookahead_loop:
  "tasks_of kd (trsmA_fwd_lookahead_loop target mt nt lookahead k i) =
     (if kd = LookaheadUpdate
      then map (trsmA_fwd_lookahead_task target nt k) [i..min (k+lookahead) (mt-1)] else [])"
  unfolding trsmA_fwd_lookahead_loop_map
  by (rule tasks_of_map_Spawn) (rule kind_trsmA_fwd_lookahead_task)

lemma lookahead_tasks_trsmA_fwd_step:
  "tasks_of LookaheadUpdate (trsmA_fwd_step target one alpha mt nt lookahead k) =
     map (trsmA_fwd_lookahead_task target nt k) [k+1..min (k+lookahead) (mt-1)]"
  by (simp add: trsmA_fwd_step_def tasks_of_simps tasks_of_trsmA_fwd_lookahead_loop trsmA_kinds)

lemma trailing_tasks_trsmA_fwd_step:
  "tasks_of TrailingUpdate (trsmA_fwd_step target one alpha mt nt lookahead k) =
     (if k+1+lookahead < mt then [trsmA_fwd_trailing_task target mt nt lookahead k] else [])"
  by (simp add: trsmA_fwd_step_def tasks_of_simps tasks_of_trsmA_fwd_lookahead_loop trsmA_kinds)

lemma trailing_tasks_trsmA_bwd_step:
  "tasks_of TrailingUpdate (trsmA_bwd_step target one alpha mt nt lookahead k) =
     (if k-1-lookahead \<ge> 0 then [trsmA_bwd_trailing_task nt lookahead k] else [])"
  by (simp add: trsmA_bwd_step_def tasks_of_simps tasks_of_trsmA_bwd_lookahead_loop trsmA_kinds)

lemma rows_gemmA_loop:
  "1 \<le> nt \<Longrightarrow>
   (\<Union>c \<in> set (gemmA_loop target nt k i1 i2 prio queue 0 :: 's trsmA_call list). rows_of_call c)
     = {i1..i2}"
  unfolding gemmA_loop_map by auto

lemma rows_trsmA_fwd_lookahead_task:
  "1 \<le> nt \<Longrightarrow>
   (\<Union>c \<in> set (body (trsmA_fwd_lookahead_task target nt k i :: 's trsmA_call task)).
      rows_of_call c) = {i}"
  by (simp add: trsmA_fwd_lookahead_task_def rows_gemmA_loop)

lemma rows_trsmA_fwd_trailing_task:
  "1 \<le> nt \<Longrightarrow>
   (\<Union>c \<in> set (body (trsmA_fwd_trailing_task target mt nt lookahead k :: 's trsmA_call task)).
      rows_of_call c) = {k+1+lookahead..mt-1}"
  by (simp add: trsmA_fwd_trailing_task_def rows_gemmA_loop)

lemma lookahead_rows_trsmA_fwd_step:
  "1 \<le> nt \<Longrightarrow>
   rows_updated LookaheadUpdate (trsmA_fwd_step target one alpha mt nt lookahead k)
     = {k+1..min (k+lookahead) (mt-1)}"
  unfolding rows_updated_def lookahead_tasks_trsmA_fwd_step
  by (simp add: rows_trsmA_fwd_lookahead_task)

lemma trailing_rows_trsmA_fwd_step:
  "1 \<le> nt \<Longrightarrow>
   rows_updated TrailingUpdate (trsmA_fwd_step target one alpha mt nt lookahead k)
     = {k+1+lookahead..mt-1}"
  unfolding rows_updated_def trailing_tasks_trsmA_fwd_step
  by (simp add: rows_trsmA_fwd_trailing_task)

section \<open>Verified properties\<close>

lemma disjoint_cover_ranges:
  "0 \<le> lookahead \<Longrightarrow>
   disjoint_cover mt lookahead k {k+1..min (k+lookahead) (mt-1)} {k+1+lookahead..mt-1}"
  unfolding disjoint_cover_def by auto

text \<open>
  C2. For every tile-column count \<open>mt \<ge> 1\<close> and every lookahead in \<open>[0, mt-1]\<close>, the
  sweep runs its iterations for \<open>k = 0, ..., mt-1\<close>, each once and in this order, and at
  each step \<open>k\<close> the columns updated by the lookahead tasks are \<open>k+1 .. min(k+lookahead,
  mt-1)\<close>, the columns updated by the trailing task are \<open>k+1+lookahead .. mt-1\<close>, the two
  sets are disjoint and their union is \<open>k+1 .. mt-1\<close>. This holds for the column loop of
  both specializations of the factorization and for the forward row loop of the
  triangular solve (whose tasks update rows of \<open>B\<close>; a task there has one kernel call per
  tile column of \<open>B\<close>, so \<open>B\<close> needs at least one).
\<close>

theorem sweep_visits_columns_once_and_partitions_updates:
  assumes "1 \<le> mt" and "0 \<le> lookahead" and "lookahead \<le> mt - 1"
  shows
    "potrf_loop target mt lookahead 0
       = map (\<lambda>k. (k, potrf_step target mt lookahead k)) [0..mt-1]
     \<and> (\<forall>k \<in> {0..mt-1}.
          disjoint_cover mt lookahead k
            (cols_updated LookaheadUpdate (potrf_step target mt lookahead k))
            (cols_updated TrailingUpdate (potrf_step target mt lookahead k)))
     \<and> potrf_devices_loop trs mt lookahead 0
       = map (\<lambda>k. (k, potrf_devices_step trs mt lookahead k)) [0..mt-1]
     \<and> (\<forall>k \<in> {0..mt-1}.
          disjoint_cover mt lookahead k
            (cols_updated LookaheadUpdate (potrf_devices_step trs mt lookahead k))
            (cols_updated TrailingUpdate (potrf_devices_step trs mt lookahead k)))
     \<and> trsmA_fwd_loop target one alpha mt nt lookahead 0
       = map (\<lambda>k. (k, trsmA_fwd_step target one alpha mt nt lookahead k)) [0..mt-1]
     \<and> (1 \<le> nt \<longrightarrow> (\<forall>k \<in> {0..mt-1}.
          disjoint_cover mt lookahead k
            (rows_updated LookaheadUpdate (trsmA_fwd_step target one alpha mt nt lookahead k))
            (rows_updated TrailingUpdate (trsmA_fwd_step target one alpha mt nt lookahead k))))"
proof (intro conjI)
  show "potrf_loop target mt lookahead 0
       = map (\<lambda>k. (k, potrf_step target mt lookahead k)) [0..mt-1]"
    by (rule potrf_loop_map)
  show "potrf_devices_loop trs mt lookahead 0
       = map (\<lambda>k. (k, potrf_devices_step trs mt lookahead k)) [0..mt-1]"
    by (rule potrf_devices_loop_map)
  show "trsmA_fwd_loop target one alpha mt nt lookahead 0
       = map (\<lambda>k. (k, trsmA_fwd_step target one alpha mt nt lookahead k)) [0..mt-1]"
    by (rule trsmA_fwd_loop_map)
  show "\<forall>k \<in> {0..mt-1}.
          disjoint_cover mt lookahead k
            (cols_updated LookaheadUpdate (potrf_step target mt lookahead k))
            (cols_updated TrailingUpdate (potrf_step target mt lookahead k))"
    using assms(2)
    by (simp add: lookahead_cols_potrf_step trailing_cols_potrf_step disjoint_cover_ranges)
  show "\<forall>k \<in> {0..mt-1}.
          disjoint_cover mt lookahead k
            (cols_updated LookaheadUpdate (potrf_devices_step trs mt lookahead k))
            (cols_updated TrailingUpdate (potrf_devices_step trs mt lookahead k))"
    using assms(2)
    by (simp add: lookahead_cols_potrf_devices_step trailing_cols_potrf_devices_step
        disjoint_cover_ranges)
  show "1 \<le> nt \<longrightarrow> (\<forall>k \<in> {0..mt-1}.
          disjoint_cover mt lookahead k
            (rows_updated LookaheadUpdate (trsmA_fwd_step target one alpha mt nt lookahead k))
            (rows_updated TrailingUpdate (trsmA_fwd_step target one alpha mt nt lookahead k)))"
    using assms(2)
    by (simp add: lookahead_rows_trsmA_fwd_step trailing_rows_trsmA_fwd_step
        disjoint_cover_ranges)
qed

theorem sweep_visits_columns_once_and_partitions_updates_witness:
  "map fst (potrf_loop HostTask 3 1 0) = [0, 1, 2]
   \<and> cols_updated LookaheadUpdate (potrf_step HostTask 3 1 0) = {1}
   \<and> cols_updated TrailingUpdate (potrf_step HostTask 3 1 0) = {2}
   \<and> map fst (potrf_devices_loop TRS_All 3 1 0) = [0, 1, 2]
   \<and> cols_updated LookaheadUpdate (potrf_devices_step TRS_All 3 1 0) = {1}
   \<and> cols_updated TrailingUpdate (potrf_devices_step TRS_All 3 1 0) = {2}
   \<and> map fst (trsmA_fwd_loop HostTask (1::int) 2 3 1 1 0) = [0, 1, 2]
   \<and> rows_updated LookaheadUpdate (trsmA_fwd_step HostTask (1::int) 2 3 1 1 0) = {1}
   \<and> rows_updated TrailingUpdate (trsmA_fwd_step HostTask (1::int) 2 3 1 1 0) = {2}"
proof -
  have h: "(1::int) \<le> 3" "(0::int) \<le> 1" "(1::int) \<le> 3 - 1" by simp_all
  note t = sweep_visits_columns_once_and_partitions_updates
             [OF h, where target = HostTask and trs = TRS_All and one = "1::int" and alpha = 2
               and nt = 1]
  have u: "[0..2] = [0, 1, (2::int)]" by code_simp
  have k: "(0::int) \<in> {0..3-1}" by simp
  from t have a: "map fst (potrf_loop HostTask 3 1 0) = [0, 1, 2]"
    by (simp add: u comp_def)
  from t have b: "map fst (potrf_devices_loop TRS_All 3 1 0) = [0, 1, 2]"
    by (simp add: u comp_def)
  from t have c: "map fst (trsmA_fwd_loop HostTask (1::int) 2 3 1 1 0) = [0, 1, 2]"
    by (simp add: u comp_def)
  from t have "\<forall>k \<in> {0..3-1}. disjoint_cover 3 1 k
      (cols_updated LookaheadUpdate (potrf_step HostTask 3 1 k))
      (cols_updated TrailingUpdate (potrf_step HostTask 3 1 k))" by blast
  from bspec[OF this k] have d: "cols_updated LookaheadUpdate (potrf_step HostTask 3 1 0) = {1}
     \<and> cols_updated TrailingUpdate (potrf_step HostTask 3 1 0) = {2}"
    by (simp add: disjoint_cover_def)
  from t have "\<forall>k \<in> {0..3-1}. disjoint_cover 3 1 k
      (cols_updated LookaheadUpdate (potrf_devices_step TRS_All 3 1 k))
      (cols_updated TrailingUpdate (potrf_devices_step TRS_All 3 1 k))" by blast
  from bspec[OF this k] have e: "cols_updated LookaheadUpdate (potrf_devices_step TRS_All 3 1 0) = {1}
     \<and> cols_updated TrailingUpdate (potrf_devices_step TRS_All 3 1 0) = {2}"
    by (simp add: disjoint_cover_def)
  from t have "\<forall>k \<in> {0..3-1}. disjoint_cover 3 1 k
      (rows_updated LookaheadUpdate (trsmA_fwd_step HostTask (1::int) 2 3 1 1 k))
      (rows_updated TrailingUpdate (trsmA_fwd_step HostTask (1::int) 2 3 1 1 k))" by simp
  from bspec[OF this k] have f: "rows_updated LookaheadUpdate (trsmA_fwd_step HostTask (1::int) 2 3 1 1 0) = {1}
     \<and> rows_updated TrailingUpdate (trsmA_fwd_step HostTask (1::int) 2 3 1 1 0) = {2}"
    by (simp add: disjoint_cover_def)
  from a b c d e f show ?thesis by simp
qed

subsection \<open>Tasks and calls of a whole sweep\<close>

lemma sweep_events_Nil: "sweep_events [] = []"
  by (simp add: sweep_events_def)

lemma sweep_events_Cons: "sweep_events ((k, es) # its) = es @ sweep_events its"
  by (simp add: sweep_events_def)

lemma tasks_of_concat: "tasks_of kd (concat xss) = concat (map (tasks_of kd) xss)"
  by (induction xss) (simp_all add: tasks_of_simps)

lemma tasks_of_sweep:
  "tasks_of kd (sweep_events (map (\<lambda>k. (k, f k)) ks)) = concat (map (\<lambda>k. tasks_of kd (f k)) ks)"
  by (simp add: sweep_events_def tasks_of_concat comp_def)

lemma all_calls_Nil: "all_calls [] = []"
  by (simp add: all_calls_def)

lemma all_calls_append: "all_calls (xs @ ys) = all_calls xs @ all_calls ys"
  by (simp add: all_calls_def)

lemma all_calls_Cons: "all_calls (e # es) = event_calls e @ all_calls es"
  by (simp add: all_calls_def)

lemma all_calls_sweep:
  "all_calls (sweep_events (map (\<lambda>k. (k, f k)) ks)) = concat (map (\<lambda>k. all_calls (f k)) ks)"
  by (induction ks) (simp_all add: sweep_events_def all_calls_Nil all_calls_append)

lemma filter_all_calls_map_Spawn:
  "(\<And>x. filter P (body (f x)) = []) \<Longrightarrow> filter P (all_calls (map (\<lambda>x. Spawn (f x)) xs)) = []"
  by (induction xs) (simp_all add: all_calls_Nil all_calls_Cons)

lemma concat_map_singleton: "concat (map (\<lambda>x. [g x]) xs) = map g xs"
  by (induction xs) simp_all

lemma concat_map_Nil: "concat (map (\<lambda>x. []) xs) = []"
  by (induction xs) simp_all

lemmas all_calls_simps = all_calls_Nil all_calls_append all_calls_Cons

subsection \<open>Trailing tasks of the sweeps\<close>

lemma trailing_tasks_potrf_sweep:
  "t \<in> set (tasks_of TrailingUpdate (sweep_events (potrf_loop target mt lookahead 0)))
   \<Longrightarrow> \<exists>k. t = potrf_trailing_task target mt lookahead k"
  unfolding potrf_loop_map tasks_of_sweep trailing_tasks_potrf_step
  by (auto split: if_splits)

lemma trailing_tasks_potrf_devices_sweep:
  "t \<in> set (tasks_of TrailingUpdate (sweep_events (potrf_devices_loop trs mt lookahead 0)))
   \<Longrightarrow> \<exists>k. t = potrf_devices_trailing_task mt lookahead k"
  unfolding potrf_devices_loop_map tasks_of_sweep trailing_tasks_potrf_devices_step
  by (auto split: if_splits)

lemma trailing_tasks_trsmA_fwd_sweep:
  "t \<in> set (tasks_of TrailingUpdate
              (sweep_events (trsmA_fwd_loop target one alpha mt nt lookahead 0)))
   \<Longrightarrow> \<exists>k. t = trsmA_fwd_trailing_task target mt nt lookahead k"
  unfolding trsmA_fwd_loop_map tasks_of_sweep trailing_tasks_trsmA_fwd_step
  by (auto split: if_splits)

lemma ordered_potrf_trailing:
  "ordered_by_tokens (potrf_trailing_task target mt lookahead k)
     (potrf_trailing_task target mt lookahead k')"
  by (simp add: ordered_by_tokens_def potrf_trailing_task_def)

lemma ordered_potrf_devices_trailing:
  "ordered_by_tokens (potrf_devices_trailing_task mt lookahead k)
     (potrf_devices_trailing_task mt lookahead k')"
  by (simp add: ordered_by_tokens_def potrf_devices_trailing_task_def)

lemma ordered_trsmA_fwd_trailing:
  "ordered_by_tokens (trsmA_fwd_trailing_task target mt nt lookahead k)
     (trsmA_fwd_trailing_task target mt nt lookahead k')"
  by (simp add: ordered_by_tokens_def trsmA_fwd_trailing_task_def)

lemma potrf_trailing_chain:
  "\<forall>t \<in> set (tasks_of TrailingUpdate (sweep_events (potrf_loop target mt lookahead 0))).
   \<forall>u \<in> set (tasks_of TrailingUpdate (sweep_events (potrf_loop target mt lookahead 0))).
     ordered_by_tokens t u"
  using trailing_tasks_potrf_sweep ordered_potrf_trailing by blast

lemma potrf_devices_trailing_chain:
  "\<forall>t \<in> set (tasks_of TrailingUpdate (sweep_events (potrf_devices_loop trs mt lookahead 0))).
   \<forall>u \<in> set (tasks_of TrailingUpdate (sweep_events (potrf_devices_loop trs mt lookahead 0))).
     ordered_by_tokens t u"
  using trailing_tasks_potrf_devices_sweep ordered_potrf_devices_trailing by blast

lemma trsmA_fwd_trailing_chain:
  "\<forall>t \<in> set (tasks_of TrailingUpdate
               (sweep_events (trsmA_fwd_loop target one alpha mt nt lookahead 0))).
   \<forall>u \<in> set (tasks_of TrailingUpdate
               (sweep_events (trsmA_fwd_loop target one alpha mt nt lookahead 0))).
     ordered_by_tokens t u"
proof (intro ballI)
  fix t u
  assume a: "t \<in> set (tasks_of TrailingUpdate
               (sweep_events (trsmA_fwd_loop target one alpha mt nt lookahead 0)))"
    and b: "u \<in> set (tasks_of TrailingUpdate
               (sweep_events (trsmA_fwd_loop target one alpha mt nt lookahead 0)))"
  from trailing_tasks_trsmA_fwd_sweep[OF a]
  obtain k where t: "t = trsmA_fwd_trailing_task target mt nt lookahead k" ..
  from trailing_tasks_trsmA_fwd_sweep[OF b]
  obtain k' where u: "u = trsmA_fwd_trailing_task target mt nt lookahead k'" ..
  show "ordered_by_tokens t u"
    unfolding t u by (rule ordered_trsmA_fwd_trailing)
qed

lemma filter_all_calls_sweep:
  "filter P (all_calls (sweep_events (map (\<lambda>k. (k, f k)) ks)))
     = concat (map (\<lambda>k. filter P (all_calls (f k))) ks)"
  by (simp add: all_calls_sweep filter_concat comp_def)

lemma factorizations_potrf_step:
  "filter is_factorization (all_calls (potrf_step target A_nt lookahead k))
     = [Potrf HostTask (Tiles (SubD k k)) (Some 1)]"
proof -
  have l: "filter is_factorization (body (potrf_lookahead_task A_nt k j)) = []" for j
    by (simp add: potrf_lookahead_task_def)
  show ?thesis
    by (simp add: potrf_step_def potrf_lookahead_loop_map all_calls_simps
        filter_all_calls_map_Spawn[of is_factorization, OF l]
        potrf_panel_def potrf_trailing_task_def)
qed

lemma factorizations_potrf_devices_step:
  "filter is_factorization (all_calls (potrf_devices_step trs A_nt lookahead k))
     = [Potrf HostTask (Tiles (SubD k k)) None]"
proof -
  have l: "filter is_factorization (body (potrf_devices_lookahead_task A_nt k j)) = []" for j
    by (simp add: potrf_devices_lookahead_task_def)
  show ?thesis
    by (simp add: potrf_devices_step_def potrf_devices_lookahead_loop_map all_calls_simps
        filter_all_calls_map_Spawn[of is_factorization, OF l]
        potrf_devices_panel_def potrf_devices_trailing_task_def potrf_devices_release_def)
qed

lemma factorizations_potrf_generic:
  "filter is_factorization (all_calls (events (potrf_generic target M A lookahead opts)))
     = map (\<lambda>k. Potrf HostTask (Tiles (SubD k k)) (Some 1)) [0..h_nt M (to_lower M A) - 1]"
  unfolding events_def potrf_generic_def Let_def potrf_loop_map
  by (simp add: all_calls_simps filter_all_calls_sweep factorizations_potrf_step
      concat_map_singleton)

lemma factorizations_potrf_devices:
  "filter is_factorization (all_calls (events (potrf_devices M A lookahead opts)))
     = map (\<lambda>k. Potrf HostTask (Tiles (SubD k k)) None) [0..h_nt M (to_lower M A) - 1]"
  unfolding events_def potrf_devices_def Let_def potrf_devices_loop_map
  by (simp add: all_calls_simps filter_all_calls_sweep factorizations_potrf_devices_step
      concat_map_singleton)

lemma trailing_tasks_potrf_devices:
  "t \<in> set (tasks_of TrailingUpdate (events (potrf_devices M A lookahead opts)))
   \<Longrightarrow> \<exists>k. t = potrf_devices_trailing_task (h_nt M (to_lower M A)) lookahead k"
  by (simp add: events_def potrf_devices_def Let_def tasks_of_simps
      trailing_tasks_potrf_devices_sweep)

lemma trailing_targets_potrf_devices:
  "\<forall>t \<in> set (tasks_of TrailingUpdate (events (potrf_devices M A lookahead opts))).
     map call_target (body t) = [Some Devices]"
proof
  fix t
  assume "t \<in> set (tasks_of TrailingUpdate (events (potrf_devices M A lookahead opts)))"
  from trailing_tasks_potrf_devices[OF this]
  obtain k where "t = potrf_devices_trailing_task (h_nt M (to_lower M A)) lookahead k" ..
  then show "map call_target (body t) = [Some Devices]"
    by (simp add: potrf_devices_trailing_task_def)
qed

text \<open>
  C4. Whatever target the options select, the entry point factors the diagonal tiles
  \<open>A(k, k)\<close>, \<open>k = 0, ..., nt-1\<close>, with the \<open>HostTask\<close> kernel, and these are all the
  tile factorizations it performs; in the device specialization the trailing update of
  every step is dispatched to \<open>Devices\<close> all the same.
\<close>

theorem panel_factorization_runs_on_HostTask:
  "filter is_factorization (all_calls (events (potrf M A opts)))
     = map (\<lambda>k. Potrf HostTask (Tiles (SubD k k))
                   (if get_option (opt_Target opts) HostTask = Devices then None else Some 1))
         [0..h_nt M (to_lower M A) - 1]
   \<and> (get_option (opt_Target opts) HostTask = Devices \<longrightarrow>
        (\<forall>t \<in> set (tasks_of TrailingUpdate (events (potrf M A opts))).
           map call_target (body t) = [Some Devices]))"
proof (cases "get_option (opt_Target opts) HostTask")
  case Host
  then show ?thesis
    by (simp add: potrf_def potrf_target_def specialization_potrf_def
        factorizations_potrf_generic)
next
  case HostTask
  then show ?thesis
    by (simp add: potrf_def potrf_target_def specialization_potrf_def
        factorizations_potrf_generic)
next
  case HostNest
  then show ?thesis
    by (simp add: potrf_def potrf_target_def specialization_potrf_def
        factorizations_potrf_generic)
next
  case HostBatch
  then show ?thesis
    by (simp add: potrf_def potrf_target_def specialization_potrf_def
        factorizations_potrf_generic)
next
  case Devices
  then show ?thesis
    by (simp add: potrf_def potrf_target_def specialization_potrf_def
        factorizations_potrf_devices trailing_targets_potrf_devices)
qed

theorem panel_factorization_runs_on_HostTask_witness:
  "filter is_factorization (all_calls (events (potrf
       \<lparr>h_uplo = \<lambda>n. Lower, h_conjTranspose = \<lambda>n. n, h_nt = \<lambda>n. n\<rparr> (2::int)
       \<lparr>opt_Lookahead = Some 0, opt_Target = Some Devices, opt_TileReleaseStrategy = None\<rparr>)))
     = [Potrf HostTask (Tiles (SubD 0 0)) None, Potrf HostTask (Tiles (SubD 1 1)) None]
   \<and> map call_target (body (potrf_devices_trailing_task 2 0 0)) = [Some Devices]"
proof -
  let ?M = "\<lparr>h_uplo = \<lambda>n::int. Lower, h_conjTranspose = \<lambda>n. n, h_nt = \<lambda>n. n\<rparr>"
  let ?opts = "\<lparr>opt_Lookahead = Some 0, opt_Target = Some Devices,
                 opt_TileReleaseStrategy = None\<rparr>"
  note t = panel_factorization_runs_on_HostTask[where M = ?M and A = 2 and opts = ?opts]
  have u: "[0..1] = [0, 1::int]" by code_simp
  have m: "tasks_of TrailingUpdate (events (potrf ?M 2 ?opts))
      = [potrf_devices_trailing_task 2 0 0]"
    by (simp add: potrf_def potrf_target_def specialization_potrf_def get_option_def events_def
        potrf_devices_def to_lower_def potrf_devices_loop_map u sweep_events_Nil
        sweep_events_Cons tasks_of_simps trailing_tasks_potrf_devices_step)
  from t have a: "filter is_factorization (all_calls (events (potrf ?M 2 ?opts)))
     = [Potrf HostTask (Tiles (SubD 0 0)) None, Potrf HostTask (Tiles (SubD 1 1)) None]"
    by (simp add: get_option_def to_lower_def u)
  from t have b: "map call_target (body (potrf_devices_trailing_task 2 0 0)) = [Some Devices]"
    unfolding m by (simp add: get_option_def)
  from a b show ?thesis by simp
qed

lemma to_int32_id: "- (2^31) \<le> x \<Longrightarrow> x < 2^31 \<Longrightarrow> to_int32 x = x"
  by (simp add: to_int32_def sint_sbintrunc' signed_take_bit_int_eq_self)

lemma resource_calls_potrf_devices_step:
  "filter is_resource_call (all_calls (potrf_devices_step trs A_nt lookahead k)) = []"
proof -
  have l: "filter is_resource_call (body (potrf_devices_lookahead_task A_nt k j)) = []" for j
    by (simp add: potrf_devices_lookahead_task_def)
  show ?thesis
    by (simp add: potrf_devices_step_def potrf_devices_lookahead_loop_map all_calls_simps
        filter_all_calls_map_Spawn[of is_resource_call, OF l]
        potrf_devices_panel_def potrf_devices_trailing_task_def potrf_devices_release_def)
qed

text \<open>
  C7. The device specialization makes exactly three calls that reserve or give back
  device resources of the matrix, in this order: \<^verbatim>\<open>allocateBatchArrays\<close> with
  \<open>lookahead + 2\<close> queues and \<^verbatim>\<open>reserveDeviceWorkspace\<close>, both before the column loop,
  and \<^verbatim>\<open>releaseWorkspace\<close>, the last event after the loop. The number of queues is an
  \<^verbatim>\<open>int\<close>: it is \<open>lookahead + 2\<close> as long as that fits in 32 bits.
\<close>

theorem devices_resources_reserved_for_whole_sweep:
  assumes "0 \<le> lookahead" and "lookahead + 2 < 2^31"
  shows
    "before_loop (potrf_devices M A lookahead opts)
       = [Call (AllocateBatchArrays 0 (lookahead + 2)), Call ReserveDeviceWorkspace]
     \<and> after_loop (potrf_devices M A lookahead opts)
       = [Taskwait, Call TileUpdateAllOrigin, Call ReleaseWorkspace]
     \<and> filter is_resource_call (all_calls (events (potrf_devices M A lookahead opts)))
       = [AllocateBatchArrays 0 (lookahead + 2), ReserveDeviceWorkspace, ReleaseWorkspace]"
proof -
  have q: "to_int32 (2 + lookahead) = lookahead + 2"
    using assms by (simp add: to_int32_id add.commute)
  have s: "filter is_resource_call
             (all_calls (sweep_events
                (map (\<lambda>k. (k, potrf_devices_step trs A_nt lookahead k)) ks))) = []"
    for trs A_nt ks
    by (simp add: filter_all_calls_sweep resource_calls_potrf_devices_step concat_map_Nil)
  show ?thesis
    unfolding events_def potrf_devices_def Let_def potrf_devices_loop_map
    by (simp add: q s all_calls_simps)
qed

theorem devices_resources_reserved_for_whole_sweep_witness:
  "before_loop (potrf_devices \<lparr>h_uplo = \<lambda>n. Lower, h_conjTranspose = \<lambda>n. n, h_nt = \<lambda>n. n\<rparr>
       (4::int) 1 \<lparr>opt_Lookahead = None, opt_Target = None, opt_TileReleaseStrategy = None\<rparr>)
     = [Call (AllocateBatchArrays 0 3), Call ReserveDeviceWorkspace]"
proof -
  have h: "(0::int) \<le> 1" "(1::int) + 2 < 2^31" by simp_all
  from devices_resources_reserved_for_whole_sweep
         [OF h, where M = "\<lparr>h_uplo = \<lambda>n. Lower, h_conjTranspose = \<lambda>n. n, h_nt = \<lambda>n. n\<rparr>"
            and A = "4::int"
            and opts = "\<lparr>opt_Lookahead = None, opt_Target = None,
                         opt_TileReleaseStrategy = None\<rparr>"]
  show ?thesis by simp
qed

text \<open>
  C9. For a matrix of one tile (\<open>nt = 1\<close>) and any lookahead \<open>\<ge> 0\<close>, the generic
  factorization creates one task, the panel of step 0, whose body factors the tile
  \<open>A(0, 0)\<close> and then passes an empty list to the list broadcast; it creates no lookahead
  and no trailing task and calls no tile broadcast. Under any interpretation of the calls
  in which the broadcast of an empty list and the two closing calls leave the state as it
  is, running the routine is running the single-tile kernel once.
\<close>

theorem single_tile_factorization:
  assumes "h_nt M (to_lower M A) = 1" and "0 \<le> lookahead"
  shows
    "events (potrf_generic target M A lookahead opts)
       = [Spawn \<lparr>kind = Panel, depends = [Inout 0], priority = 1,
                 body = [Potrf HostTask (Tiles (SubD 0 0)) (Some 1), ListBcastMT None [] None]\<rparr>,
          Call TileUpdateAllOrigin, Call ReleaseWorkspace]
     \<and> tasks_of LookaheadUpdate (events (potrf_generic target M A lookahead opts)) = []
     \<and> tasks_of TrailingUpdate (events (potrf_generic target M A lookahead opts)) = []
     \<and> (sem (ListBcastMT None [] None) = id \<and> sem TileUpdateAllOrigin = id
          \<and> sem ReleaseWorkspace = id
        \<longrightarrow> run sem (events (potrf_generic target M A lookahead opts))
              = sem (Potrf HostTask (Tiles (SubD 0 0)) (Some 1)))"
proof -
  have b: "bcast_list_A 1 0 1 = []"
    by (simp add: bcast_list_A_map)
  have l: "potrf_lookahead_loop 1 lookahead 0 1 = []"
    using assms(2) by (simp add: potrf_lookahead_loop_map)
  have e: "events (potrf_generic target M A lookahead opts)
       = [Spawn \<lparr>kind = Panel, depends = [Inout 0], priority = 1,
                 body = [Potrf HostTask (Tiles (SubD 0 0)) (Some 1), ListBcastMT None [] None]\<rparr>,
          Call TileUpdateAllOrigin, Call ReleaseWorkspace]"
    unfolding events_def potrf_generic_def Let_def assms(1) potrf_loop_map
    using assms(2)
    by (simp add: sweep_events_def potrf_step_def potrf_panel_def l b)
  show ?thesis
    unfolding e
    by (auto simp: tasks_of_simps run_def all_calls_simps)
qed

theorem single_tile_factorization_witness:
  "events (potrf_generic HostNest
       \<lparr>h_uplo = \<lambda>n. Upper, h_conjTranspose = \<lambda>n. n, h_nt = \<lambda>n. n\<rparr> (1::int) 2
       \<lparr>opt_Lookahead = None, opt_Target = None, opt_TileReleaseStrategy = None\<rparr>)
     = [Spawn \<lparr>kind = Panel, depends = [Inout 0], priority = 1,
               body = [Potrf HostTask (Tiles (SubD 0 0)) (Some 1), ListBcastMT None [] None]\<rparr>,
        Call TileUpdateAllOrigin, Call ReleaseWorkspace]
   \<and> run (\<lambda>c n. if is_factorization c then Suc n else n)
        (events (potrf_generic HostNest
           \<lparr>h_uplo = \<lambda>n. Upper, h_conjTranspose = \<lambda>n. n, h_nt = \<lambda>n. n\<rparr> (1::int) 2
           \<lparr>opt_Lookahead = None, opt_Target = None, opt_TileReleaseStrategy = None\<rparr>)) 0
     = Suc 0"
proof -
  let ?M = "\<lparr>h_uplo = \<lambda>n::int. Upper, h_conjTranspose = \<lambda>n. n, h_nt = \<lambda>n. n\<rparr>"
  let ?opts = "\<lparr>opt_Lookahead = None, opt_Target = None, opt_TileReleaseStrategy = None\<rparr>"
  let ?sem = "\<lambda>c (n::nat). if is_factorization c then Suc n else n"
  have h: "h_nt ?M (to_lower ?M 1) = 1" "(0::int) \<le> 2"
    by (simp_all add: to_lower_def)
  note t = single_tile_factorization
             [OF h, where target = HostNest and opts = ?opts and sem = ?sem]
  have i: "?sem (ListBcastMT None [] None) = id \<and> ?sem TileUpdateAllOrigin = id
           \<and> ?sem ReleaseWorkspace = id"
    by (simp add: fun_eq_iff)
  from t i have "run ?sem (events (potrf_generic HostNest ?M 1 2 ?opts))
      = ?sem (Potrf HostTask (Tiles (SubD 0 0)) (Some 1))"
    by blast
  then have r: "run ?sem (events (potrf_generic HostNest ?M 1 2 ?opts)) 0 = Suc 0"
    by simp
  from t have e: "events (potrf_generic HostNest ?M 1 2 ?opts)
     = [Spawn \<lparr>kind = Panel, depends = [Inout 0], priority = 1,
               body = [Potrf HostTask (Tiles (SubD 0 0)) (Some 1), ListBcastMT None [] None]\<rparr>,
        Call TileUpdateAllOrigin, Call ReleaseWorkspace]"
    by blast
  from e r show ?thesis by blast
qed

subsection \<open>The triangular solve\<close>

lemma trsmA_runs:
  assumes "to_left M side alpha A B = (alpha1, A1, B1)"
    and "mtA M A1 = mtB M B1" and "ntA M A1 = mtB M B1"
    and "target = Devices \<longrightarrow> 2 \<le> numComputeQueuesA M A1"
  shows "trsmA target M side alpha A B opts =
     Inr \<lparr>r_alpha = alpha1, r_A = A1, r_B = B1,
          r_steps =
            (if uploA M A1 = Lower
             then trsmA_fwd_loop target (s_one M) alpha1 (mtB M B1) (ntB M B1)
                    (get_option (opt_Lookahead opts) 1) 0
             else trsmA_bwd_loop target (s_one M) alpha1 (mtB M B1) (ntB M B1)
                    (get_option (opt_Lookahead opts) 1) (mtB M B1 - 1)),
          r_after = [Taskwait, Call (FinalRelease target)]\<rparr>"
  using assms by (auto simp: trsmA_def Let_def)

lemma trsmA_runs_steps:
  assumes "to_left M side alpha A B = (alpha1, A1, B1)"
    and "mtA M A1 = mtB M B1" and "ntA M A1 = mtB M B1"
    and "target = Devices \<longrightarrow> 2 \<le> numComputeQueuesA M A1"
  shows "trsmA target M side alpha A B opts =
     Inr \<lparr>r_alpha = alpha1, r_A = A1, r_B = B1,
            r_steps =
              (if uploA M A1 = Lower
               then map (\<lambda>k. (k, trsmA_fwd_step target (s_one M) alpha1 (mtB M B1) (ntB M B1) (get_option (opt_Lookahead opts) 1) k))
                      [0..mtB M B1 - 1]
               else map (\<lambda>k. (k, trsmA_bwd_step target (s_one M) alpha1 (mtB M B1) (ntB M B1) (get_option (opt_Lookahead opts) 1) k))
                      (rev [0..mtB M B1 - 1])),
            r_after = [Taskwait, Call (FinalRelease target)]\<rparr>"
  unfolding trsmA_runs[OF assms] by (simp add: trsmA_fwd_loop_map trsmA_bwd_loop_map)

lemma panel_tasks_trsmA_fwd_step:
  "tasks_of Panel (trsmA_fwd_step target one alpha mt nt lookahead k)
     = [\<lparr>kind = Panel, depends = [Inout k], priority = 1,
          body =
            (if k = 0 \<and> alpha \<noteq> one then [ScaleRHS (Some target) alpha] else [])
            @ [CreateLocalB (Some target) k k k,
               ListReduce target (reduce_list_B (TSub MatA k k 0 k) nt k 0),
               InternalTrsmA target Left 1 (TSubD MatA k k) (TSub MatB k k 0 (nt-1)) 1 1,
               SendSolution k True,
               ListBcast target (bcast_list_upd_B (TSub MatA (k+1) (mt-1) k k) nt k 0)
                 (Some (k, lookahead + 1))]\<rparr>]"
  by (simp add: trsmA_fwd_step_def tasks_of_simps tasks_of_trsmA_fwd_lookahead_loop
      kind_trsmA_fwd_trailing_task trsmA_fwd_panel_def)

lemma panel_tasks_trsmA_bwd_step:
  "tasks_of Panel (trsmA_bwd_step target one alpha mt nt lookahead k)
     = [\<lparr>kind = Panel, depends = [Inout k], priority = 1,
          body =
            (if k = mt - 1 \<and> alpha \<noteq> one then [ScaleRHS None alpha] else [])
            @ [CreateLocalB None k k k,
               ListReduce target (reduce_list_B (TSub MatA k k k (mt-1)) nt k 0),
               InternalTrsmA target Left 1 (TSubD MatA k k) (TSub MatB k k 0 (nt-1)) 1 1,
               SendSolution k False,
               EraseNonLocal k,
               ListBcast target (bcast_list_upd_B (TSub MatA 0 (k-1) k k) nt k 0) None]\<rparr>]"
  by (simp add: trsmA_bwd_step_def tasks_of_simps tasks_of_trsmA_bwd_lookahead_loop
      kind_trsmA_bwd_trailing_task trsmA_bwd_panel_def)





text \<open>
  C6. With \<open>side = Right\<close> the routine first replaces its operands: if \<open>A\<close> or \<open>B\<close>
  carries a conjugate transposition, by the conjugate transposes of \<open>A\<close> and \<open>B\<close> and the
  conjugate of \<open>alpha\<close>, otherwise by the transposes of \<open>A\<close> and \<open>B\<close> with \<open>alpha\<close>
  unchanged. Provided the assertions hold on the replaced operands, what it then runs is
  the left-side sweep on them: the forward or backward steps over the rows of the
  replaced \<open>B\<close>, whose panel scales the right-hand side by the replaced \<open>alpha\<close> (in the
  first step, unless it is one) and solves row \<open>k\<close> with
  \<^verbatim>\<open>internal::trsmA(Side::Left, ...)\<close> against the diagonal tile of the replaced \<open>A\<close>.
  The result is the result of the call with \<open>side = Left\<close> on the replaced operands;
  there is no sweep of its own for the right side. (The equality is one of operands and
  task graphs; the arithmetic inside the kernels is not modelled.)
\<close>

theorem trsmA_right_is_left_on_transposed_operands:
  assumes "(alpha1, A1, B1) =
             (if opA M A = ConjTrans \<or> opB M B = ConjTrans
              then (s_conj M alpha, conj_transposeA M A, conj_transposeB M B)
              else (alpha, transposeA M A, transposeB M B))"
    and "mtA M A1 = mtB M B1" and "ntA M A1 = mtB M B1"
    and "target = Devices \<longrightarrow> 2 \<le> numComputeQueuesA M A1"
  shows "trsmA target M Right alpha A B opts =
     Inr \<lparr>r_alpha = alpha1, r_A = A1, r_B = B1,
            r_steps =
              (if uploA M A1 = Lower
               then map (\<lambda>k. (k, trsmA_fwd_step target (s_one M) alpha1 (mtB M B1) (ntB M B1) (get_option (opt_Lookahead opts) 1) k))
                      [0..mtB M B1 - 1]
               else map (\<lambda>k. (k, trsmA_bwd_step target (s_one M) alpha1 (mtB M B1) (ntB M B1) (get_option (opt_Lookahead opts) 1) k))
                      (rev [0..mtB M B1 - 1])),
            r_after = [Taskwait, Call (FinalRelease target)]\<rparr>
   \<and> trsmA target M Right alpha A B opts = trsmA target M Left alpha1 A1 B1 opts
   \<and> tasks_of Panel (trsmA_fwd_step target (s_one M) alpha1 (mtB M B1) (ntB M B1) (get_option (opt_Lookahead opts) 1) k)
     = [\<lparr>kind = Panel, depends = [Inout k], priority = 1,
          body =
            (if k = 0 \<and> alpha1 \<noteq> s_one M then [ScaleRHS (Some target) alpha1] else [])
            @ [CreateLocalB (Some target) k k k,
               ListReduce target (reduce_list_B (TSub MatA k k 0 k) (ntB M B1) k 0),
               InternalTrsmA target Left 1 (TSubD MatA k k) (TSub MatB k k 0 (ntB M B1 - 1)) 1 1,
               SendSolution k True,
               ListBcast target (bcast_list_upd_B (TSub MatA (k+1) (mtB M B1 - 1) k k) (ntB M B1) k 0)
                 (Some (k, get_option (opt_Lookahead opts) 1 + 1))]\<rparr>]
   \<and> tasks_of Panel (trsmA_bwd_step target (s_one M) alpha1 (mtB M B1) (ntB M B1) (get_option (opt_Lookahead opts) 1) k)
     = [\<lparr>kind = Panel, depends = [Inout k], priority = 1,
          body =
            (if k = mtB M B1 - 1 \<and> alpha1 \<noteq> s_one M then [ScaleRHS None alpha1] else [])
            @ [CreateLocalB None k k k,
               ListReduce target (reduce_list_B (TSub MatA k k k (mtB M B1 - 1)) (ntB M B1) k 0),
               InternalTrsmA target Left 1 (TSubD MatA k k) (TSub MatB k k 0 (ntB M B1 - 1)) 1 1,
               SendSolution k False,
               EraseNonLocal k,
               ListBcast target (bcast_list_upd_B (TSub MatA 0 (k-1) k k) (ntB M B1) k 0) None]\<rparr>]"
proof -
  have r: "to_left M Right alpha A B = (alpha1, A1, B1)"
    using assms(1) by (simp add: to_left_def)
  have l: "to_left M Left alpha1 A1 B1 = (alpha1, A1, B1)"
    by (simp add: to_left_def)
  show ?thesis
    unfolding trsmA_runs_steps[OF r assms(2-4)] trsmA_runs_steps[OF l assms(2-4)]
    by (simp only: panel_tasks_trsmA_fwd_step panel_tasks_trsmA_bwd_step simp_thms)
qed

theorem trsmA_right_is_left_on_transposed_operands_witness:
  "trsmA Devices sample_trsm_ops Right 5 (Lower, NoTrans) ConjTrans no_options
     = Inr \<lparr>r_alpha = - 5, r_A = (Upper, ConjTrans), r_B = ConjTrans,
            r_steps = [(2, trsmA_bwd_step Devices 1 (- 5) 3 1 1 2),
                       (1, trsmA_bwd_step Devices 1 (- 5) 3 1 1 1),
                       (0, trsmA_bwd_step Devices 1 (- 5) 3 1 1 0)],
            r_after = [Taskwait, Call (FinalRelease Devices)]\<rparr>
   \<and> trsmA Devices sample_trsm_ops Right 5 (Lower, NoTrans) ConjTrans no_options
     = trsmA Devices sample_trsm_ops Left (- 5) (Upper, ConjTrans) ConjTrans no_options
   \<and> tasks_of Panel (trsmA_bwd_step Devices (1::int) (- 5) 3 1 1 2)
     = [\<lparr>kind = Panel, depends = [Inout 2], priority = 1,
         body = [ScaleRHS None (- 5), CreateLocalB None 2 2 2,
                 ListReduce Devices (reduce_list_B (TSub MatA 2 2 2 2) 1 2 0),
                 InternalTrsmA Devices Left 1 (TSubD MatA 2 2) (TSub MatB 2 2 0 0) 1 1,
                 SendSolution 2 False, EraseNonLocal 2,
                 ListBcast Devices (bcast_list_upd_B (TSub MatA 0 1 2 2) 1 2 0) None]\<rparr>]"
proof -
  have u: "[0..2] = [0, 1, 2::int]" by code_simp
  have e: "(- 5, (Upper, ConjTrans), ConjTrans) =
             (if opA sample_trsm_ops (Lower, NoTrans) = ConjTrans
                 \<or> opB sample_trsm_ops ConjTrans = ConjTrans
              then (s_conj sample_trsm_ops (5::int),
                    conj_transposeA sample_trsm_ops (Lower, NoTrans),
                    conj_transposeB sample_trsm_ops ConjTrans)
              else (5, transposeA sample_trsm_ops (Lower, NoTrans),
                    transposeB sample_trsm_ops ConjTrans))"
    by (simp add: sample_trsm_ops_def)
  have a: "mtA sample_trsm_ops A1 = mtB sample_trsm_ops B1"
          "ntA sample_trsm_ops A1 = mtB sample_trsm_ops B1"
          "Devices = Devices \<longrightarrow> 2 \<le> numComputeQueuesA sample_trsm_ops A1" for A1 B1
    by (simp_all add: sample_trsm_ops_def)
  note t = trsmA_right_is_left_on_transposed_operands
             [OF e a, where opts = no_options and k = 2]
  from t have t1: "trsmA Devices sample_trsm_ops Right 5 (Lower, NoTrans) ConjTrans no_options
     = Inr \<lparr>r_alpha = - 5, r_A = (Upper, ConjTrans), r_B = ConjTrans,
            r_steps = [(2, trsmA_bwd_step Devices 1 (- 5) 3 1 1 2),
                       (1, trsmA_bwd_step Devices 1 (- 5) 3 1 1 1),
                       (0, trsmA_bwd_step Devices 1 (- 5) 3 1 1 0)],
            r_after = [Taskwait, Call (FinalRelease Devices)]\<rparr>"
    by (simp add: sample_trsm_ops_def no_options_def get_option_def u)
  from t have t2: "trsmA Devices sample_trsm_ops Right 5 (Lower, NoTrans) ConjTrans no_options
     = trsmA Devices sample_trsm_ops Left (- 5) (Upper, ConjTrans) ConjTrans no_options"
    by blast
  from t have t3: "tasks_of Panel (trsmA_bwd_step Devices (1::int) (- 5) 3 1 1 2)
     = [\<lparr>kind = Panel, depends = [Inout 2], priority = 1,
         body = [ScaleRHS None (- 5), CreateLocalB None 2 2 2,
                 ListReduce Devices (reduce_list_B (TSub MatA 2 2 2 2) 1 2 0),
                 InternalTrsmA Devices Left 1 (TSubD MatA 2 2) (TSub MatB 2 2 0 0) 1 1,
                 SendSolution 2 False, EraseNonLocal 2,
                 ListBcast Devices (bcast_list_upd_B (TSub MatA 0 1 2 2) 1 2 0) None]\<rparr>]"
    by (simp add: sample_trsm_ops_def no_options_def get_option_def)
  from t1 t2 t3 show ?thesis by simp
qed

subsection \<open>The eigensolver driver\<close>

text \<open>
  C8. Whenever the norm is neither zero nor infinite nor a NaN, whatever its magnitude,
  the driver scales \<open>D\<close> and \<open>E\<close> from \<open>Anorm\<close> to one, hands the scaled vectors to the
  solver, and scales the eigenvalues that come back from one to \<open>Anorm\<close>: there is no
  branch that skips the scaling. (The scaling routine is a parameter; that the two
  scalings cancel exactly is a matter of floating-point arithmetic and is not claimed.)
\<close>

theorem stedc_scales_unconditionally:
  assumes "Anorm = lanst K NormMax (int (length D)) D E"
    and "\<not> r_eq K Anorm (r_zero K)" and "\<not> r_isinf K Anorm" and "\<not> r_isnan K Anorm"
    and "stedc_solve K
           (lascl K MT_General 0 0 Anorm (r_one K) (int (length D)) 1 D (int (length D)))
           (lascl K MT_General 0 0 Anorm (r_one K) (int (length D) - 1) 1 E (int (length D) - 1))
           (set_matrix K (r_zero K) (r_one K) (emptyLike_insertLocalTiles K Q) opts)
           Q (emptyLike_insertLocalTiles K Q) opts
         = (D2, E2, W2, Q2, U2)"
    and "stedc_sort K D2 W2 Q2 opts = (D3, W3, Q3)"
  shows "stedc K D E Q opts =
           \<lparr>thrown = None,
            D_out = lascl K MT_General 0 0 (r_one K) Anorm (int (length D)) 1 D3 (int (length D)),
            E_out = E2, Q_out = Q3\<rparr>"
  using assms by (simp add: stedc_def Let_def)

theorem stedc_scales_unconditionally_witness:
  "stedc sample_stedc_ops [Finite 2, Finite (-4)] [Finite 1] () no_options
     = \<lparr>thrown = None, D_out = [Finite 2, Finite (-4)], E_out = [Finite (1/4)], Q_out = ()\<rparr>"
proof -
  have n: "lanst sample_stedc_ops NormMax (int (length [Finite 2, Finite (-4)]))
             [Finite 2, Finite (-4)] [Finite 1] = Finite 4"
    by (simp add: sample_stedc_ops_def)
  have s: "stedc_solve sample_stedc_ops
           (lascl sample_stedc_ops MT_General 0 0 (Finite 4) (r_one sample_stedc_ops)
              (int (length [Finite 2, Finite (-4)])) 1 [Finite 2, Finite (-4)]
              (int (length [Finite 2, Finite (-4)])))
           (lascl sample_stedc_ops MT_General 0 0 (Finite 4) (r_one sample_stedc_ops)
              (int (length [Finite 2, Finite (-4)]) - 1) 1 [Finite 1]
              (int (length [Finite 2, Finite (-4)]) - 1))
           (set_matrix sample_stedc_ops (r_zero sample_stedc_ops) (r_one sample_stedc_ops)
              (emptyLike_insertLocalTiles sample_stedc_ops ()) no_options)
           () (emptyLike_insertLocalTiles sample_stedc_ops ()) no_options
         = ([Finite (1/2), Finite (-1)], [Finite (1/4)], (), (), ())"
    by (simp add: sample_stedc_ops_def)
  have t: "stedc_sort sample_stedc_ops [Finite (1/2), Finite (-1)] () () no_options
         = ([Finite (1/2), Finite (-1)], (), ())"
    by (simp add: sample_stedc_ops_def)
  have h: "\<not> r_eq sample_stedc_ops (Finite 4) (r_zero sample_stedc_ops)"
       "\<not> r_isinf sample_stedc_ops (Finite 4)" "\<not> r_isnan sample_stedc_ops (Finite 4)"
    by (simp_all add: sample_stedc_ops_def)
  from stedc_scales_unconditionally[OF n[symmetric] h s t]
  show ?thesis by (simp add: sample_stedc_ops_def)
qed

text \<open>
  C10. If the norm compares equal to zero, the driver returns without an exception and
  \<open>D\<close>, \<open>E\<close>, \<open>Q\<close> are as they were. If the norm is infinite or a NaN (such a value never
  compares equal to zero), the driver throws the domain error, and \<open>D\<close>, \<open>E\<close>, \<open>Q\<close> are
  as they were.
\<close>

theorem stedc_zero_or_nonfinite_norm:
  assumes "Anorm = lanst K NormMax (int (length D)) D E"
  shows "(r_eq K Anorm (r_zero K) \<longrightarrow>
            stedc K D E Q opts = \<lparr>thrown = None, D_out = D, E_out = E, Q_out = Q\<rparr>)
       \<and> (\<not> r_eq K Anorm (r_zero K) \<and> (r_isinf K Anorm \<or> r_isnan K Anorm) \<longrightarrow>
            stedc K D E Q opts = \<lparr>thrown = Some DomainError, D_out = D, E_out = E, Q_out = Q\<rparr>)"
  using assms by (simp add: stedc_def Let_def)

theorem stedc_zero_or_nonfinite_norm_witness:
  "stedc sample_stedc_ops [Finite 0, Finite 0] [Finite 0] () no_options
     = \<lparr>thrown = None, D_out = [Finite 0, Finite 0], E_out = [Finite 0], Q_out = ()\<rparr>
   \<and> stedc sample_stedc_ops [Finite 1, Infinity] [Finite 3] () no_options
     = \<lparr>thrown = Some DomainError, D_out = [Finite 1, Infinity], E_out = [Finite 3], Q_out = ()\<rparr>
   \<and> stedc sample_stedc_ops [NaN, Finite 2] [Finite 3] () no_options
     = \<lparr>thrown = Some DomainError, D_out = [NaN, Finite 2], E_out = [Finite 3], Q_out = ()\<rparr>"
proof -
  have z: "Finite 0 = lanst sample_stedc_ops NormMax (int (length [Finite 0, Finite 0]))
             [Finite 0, Finite 0] [Finite 0]"
    by (simp add: sample_stedc_ops_def)
  have i: "Infinity = lanst sample_stedc_ops NormMax (int (length [Finite 1, Infinity]))
             [Finite 1, Infinity] [Finite 3]"
    by (simp add: sample_stedc_ops_def)
  have n: "NaN = lanst sample_stedc_ops NormMax (int (length [NaN, Finite 2]))
             [NaN, Finite 2] [Finite 3]"
    by (simp add: sample_stedc_ops_def)
  from stedc_zero_or_nonfinite_norm[OF z, of "()" no_options]
  have a: "stedc sample_stedc_ops [Finite 0, Finite 0] [Finite 0] () no_options
     = \<lparr>thrown = None, D_out = [Finite 0, Finite 0], E_out = [Finite 0], Q_out = ()\<rparr>"
    by (simp add: sample_stedc_ops_def)
  from stedc_zero_or_nonfinite_norm[OF i, of "()" no_options]
  have b: "stedc sample_stedc_ops [Finite 1, Infinity] [Finite 3] () no_options
     = \<lparr>thrown = Some DomainError, D_out = [Finite 1, Infinity], E_out = [Finite 3], Q_out = ()\<rparr>"
    by (simp add: sample_stedc_ops_def)
  from stedc_zero_or_nonfinite_norm[OF n, of "()" no_options]
  have c: "stedc sample_stedc_ops [NaN, Finite 2] [Finite 3] () no_options
     = \<lparr>thrown = Some DomainError, D_out = [NaN, Finite 2], E_out = [Finite 3], Q_out = ()\<rparr>"
    by (simp add: sample_stedc_ops_def)
  from a b c show ?thesis by simp
qed

subsection \<open>The status written by the linear solve\<close>

lemma slate_gesv_info: "info_out (slate_gesv env gesv n nrhs a lda ipiv b ldb) = 0"
  by (simp add: slate_gesv_def Let_def split: prod.splits)

text \<open>
  C1. The entry point \<^verbatim>\<open>slate_gesv\<close> stores 0 in \<open>info\<close> whatever the factorization
  did: here for the singular 1-by-1 system \<open>0 \<cdot> x = 1\<close>, whose first (and only) leading
  minor is singular, and for any behaviour of the solver it calls. (The entry point
  \<^verbatim>\<open>potrf\<close> has no status at all: its result above has no such field.)
\<close>

theorem slate_gesv_info_zero_on_singular_matrix:
  "info_out (slate_gesv env gesv 1 1 [0::rat] 1 [0] [1] 1) = 0"
  by (rule slate_gesv_info)

subsection \<open>Trailing-update tasks of every sweep\<close>

lemma trailing_rows_trsmA_bwd_step:
  "rows_updated TrailingUpdate (trsmA_bwd_step target one alpha mt nt lookahead k)
     = {0..k-1-lookahead}"
  unfolding rows_updated_def trailing_tasks_trsmA_bwd_step
  by (simp add: trsmA_bwd_trailing_task_def)

lemma trailing_tasks_trsmA_bwd_sweep:
  "t \<in> set (tasks_of TrailingUpdate
              (sweep_events (trsmA_bwd_loop target one alpha mt nt lookahead k0)))
   \<Longrightarrow> \<exists>k. t = trsmA_bwd_trailing_task nt lookahead k"
  unfolding trsmA_bwd_loop_map tasks_of_sweep trailing_tasks_trsmA_bwd_step
  by (auto split: if_splits)

lemma ordered_trsmA_bwd_trailing:
  "ordered_by_tokens (trsmA_bwd_trailing_task nt lookahead k)
     (trsmA_bwd_trailing_task nt lookahead k')"
  by (simp add: ordered_by_tokens_def trsmA_bwd_trailing_task_def)

lemma trsmA_bwd_trailing_chain:
  "\<forall>t \<in> set (tasks_of TrailingUpdate
               (sweep_events (trsmA_bwd_loop target one alpha mt nt lookahead k0))).
   \<forall>u \<in> set (tasks_of TrailingUpdate
               (sweep_events (trsmA_bwd_loop target one alpha mt nt lookahead k0))).
     ordered_by_tokens t u"
proof (intro ballI)
  fix t u
  assume a: "t \<in> set (tasks_of TrailingUpdate
               (sweep_events (trsmA_bwd_loop target one alpha mt nt lookahead k0)))"
    and b: "u \<in> set (tasks_of TrailingUpdate
               (sweep_events (trsmA_bwd_loop target one alpha mt nt lookahead k0)))"
  from trailing_tasks_trsmA_bwd_sweep[OF a]
  obtain k where t: "t = trsmA_bwd_trailing_task nt lookahead k" ..
  from trailing_tasks_trsmA_bwd_sweep[OF b]
  obtain k' where u: "u = trsmA_bwd_trailing_task nt lookahead k'" ..
  show "ordered_by_tokens t u"
    unfolding t u by (rule ordered_trsmA_bwd_trailing)
qed

text \<open>
  C3, as the claim is worded, speaks of every step of a factorization or solve sweep.
  The triangular solve has a second sweep, run when the triangular matrix is not stored
  lower, that goes from \<open>k = mt-1\<close> down to 0. With three tile rows and the default
  lookahead 1 its first step, \<open>k = 2\<close>, creates a trailing task although
  \<open>k+1+lookahead = 4\<close> is not below \<open>mt = 3\<close>; the task updates row 0 and names the tokens
  2 (read), 0 and 0 (\<^verbatim>\<open>inout\<close>), not 4 and 2.
\<close>

theorem trailing_update_backward_sweep_counterexample:
  "trsmA HostTask sample_trsm_ops Left 1 (Upper, NoTrans) NoTrans no_options
     = Inr \<lparr>r_alpha = 1, r_A = (Upper, NoTrans), r_B = NoTrans,
            r_steps = [(2, trsmA_bwd_step HostTask 1 1 3 1 1 2),
                       (1, trsmA_bwd_step HostTask 1 1 3 1 1 1),
                       (0, trsmA_bwd_step HostTask 1 1 3 1 1 0)],
            r_after = [Taskwait, Call (FinalRelease HostTask)]\<rparr>
   \<and> tasks_of TrailingUpdate (trsmA_bwd_step HostTask (1::int) 1 3 1 1 2)
     = [\<lparr>kind = TrailingUpdate, depends = [In 2, Inout 0, Inout 0], priority = 0,
         body = [CreateLocalB None 0 0 2,
                 GemmA HostTask (-1) (TSub MatA 0 0 2 2) (TSub MatB 2 2 0 0)
                   1 (TSub MatB 0 0 0 0) 0 None]\<rparr>]
   \<and> \<not> (2 + 1 + 1 < (3::int))"
proof -
  have u: "rev [0..2] = [2, 1, 0::int]" by code_simp
  have l: "to_left sample_trsm_ops Left (1::int) (Upper, NoTrans) NoTrans
      = (1, (Upper, NoTrans), NoTrans)"
    by (simp add: to_left_def)
  have a: "mtA sample_trsm_ops A1 = mtB sample_trsm_ops B1"
          "ntA sample_trsm_ops A1 = mtB sample_trsm_ops B1"
          "HostTask = Devices \<longrightarrow> 2 \<le> numComputeQueuesA sample_trsm_ops A1" for A1 B1
    by (simp_all add: sample_trsm_ops_def)
  have r: "trsmA HostTask sample_trsm_ops Left 1 (Upper, NoTrans) NoTrans no_options
     = Inr \<lparr>r_alpha = 1, r_A = (Upper, NoTrans), r_B = NoTrans,
            r_steps = [(2, trsmA_bwd_step HostTask 1 1 3 1 1 2),
                       (1, trsmA_bwd_step HostTask 1 1 3 1 1 1),
                       (0, trsmA_bwd_step HostTask 1 1 3 1 1 0)],
            r_after = [Taskwait, Call (FinalRelease HostTask)]\<rparr>"
    unfolding trsmA_runs[OF l a] trsmA_bwd_loop_map
    by (simp add: sample_trsm_ops_def no_options_def get_option_def u)
  have t: "tasks_of TrailingUpdate (trsmA_bwd_step HostTask (1::int) 1 3 1 1 2)
     = [\<lparr>kind = TrailingUpdate, depends = [In 2, Inout 0, Inout 0], priority = 0,
         body = [CreateLocalB None 0 0 2,
                 GemmA HostTask (-1) (TSub MatA 0 0 2 2) (TSub MatB 2 2 0 0)
                   1 (TSub MatB 0 0 0 0) 0 None]\<rparr>]"
    by (simp add: trailing_tasks_trsmA_bwd_step trsmA_bwd_trailing_task_def)
  from r t show ?thesis by simp
qed

text \<open>
  C3, amended. In the sweeps that run \<open>k = 0, ..., mt-1\<close> (both specializations of the
  factorization, and the forward sweep of the triangular solve) a trailing-update task
  is created at step \<open>k\<close> only when \<open>k+1+lookahead < mt\<close>; it is then the only one of the
  step, it updates the columns \<open>k+1+lookahead .. mt-1\<close>, and its dependencies are exactly:
  read on token \<open>k\<close>, \<^verbatim>\<open>inout\<close> on token \<open>k+1+lookahead\<close> and \<^verbatim>\<open>inout\<close> on token
  \<open>mt-1\<close>. In the backward sweep of the triangular solve the task is the mirror image:
  created only when \<open>k-1-lookahead \<ge> 0\<close>, updating the rows \<open>0 .. k-1-lookahead\<close>, with
  a read on token \<open>k\<close> and \<^verbatim>\<open>inout\<close> on the tokens \<open>k-1-lookahead\<close> and 0. In each
  sweep any two trailing tasks share an \<^verbatim>\<open>inout\<close> token (\<open>mt-1\<close>, respectively 0), so
  the runtime orders them into one chain.
\<close>

theorem trailing_update_task_dependencies:
  "tasks_of TrailingUpdate (potrf_step target mt lookahead k)
     = (if k+1+lookahead < mt
        then [\<lparr>kind = TrailingUpdate,
                depends = [In k, Inout (k+1+lookahead), Inout (mt-1)], priority = 0,
                body = [Herk target (-1) (Tiles (Sub (k+1+lookahead) (mt-1) k k))
                          1 (Tiles (SubD (k+1+lookahead) (mt-1))) None None]\<rparr>]
        else [])
   \<and> cols_updated TrailingUpdate (potrf_step target mt lookahead k) = {k+1+lookahead..mt-1}
   \<and> (\<forall>t \<in> set (tasks_of TrailingUpdate (sweep_events (potrf_loop target mt lookahead 0))).
       \<forall>u \<in> set (tasks_of TrailingUpdate (sweep_events (potrf_loop target mt lookahead 0))).
         ordered_by_tokens t u)
   \<and> tasks_of TrailingUpdate (potrf_devices_step trs mt lookahead k)
     = (if k+1+lookahead < mt
        then [\<lparr>kind = TrailingUpdate,
                depends = [In k, Inout (k+1+lookahead), Inout (mt-1)], priority = 0,
                body = [Herk Devices (-1) (Tiles (Sub (k+1+lookahead) (mt-1) k k))
                          1 (Tiles (SubD (k+1+lookahead) (mt-1))) (Some 0) (Some 0)]\<rparr>]
        else [])
   \<and> cols_updated TrailingUpdate (potrf_devices_step trs mt lookahead k)
     = {k+1+lookahead..mt-1}
   \<and> (\<forall>t \<in> set (tasks_of TrailingUpdate (sweep_events (potrf_devices_loop trs mt lookahead 0))).
       \<forall>u \<in> set (tasks_of TrailingUpdate (sweep_events (potrf_devices_loop trs mt lookahead 0))).
         ordered_by_tokens t u)
   \<and> tasks_of TrailingUpdate (trsmA_fwd_step target one alpha mt nt lookahead k)
     = (if k+1+lookahead < mt
        then [\<lparr>kind = TrailingUpdate,
                depends = [In k, Inout (k+1+lookahead), Inout (mt-1)], priority = 0,
                body = gemmA_loop target nt k (k+1+lookahead) (mt-1) 0 0 0\<rparr>]
        else [])
   \<and> (1 \<le> nt \<longrightarrow>
        rows_updated TrailingUpdate (trsmA_fwd_step target one alpha mt nt lookahead k)
          = {k+1+lookahead..mt-1})
   \<and> (\<forall>t \<in> set (tasks_of TrailingUpdate
                   (sweep_events (trsmA_fwd_loop target one alpha mt nt lookahead 0))).
       \<forall>u \<in> set (tasks_of TrailingUpdate
                   (sweep_events (trsmA_fwd_loop target one alpha mt nt lookahead 0))).
         ordered_by_tokens t u)
   \<and> tasks_of TrailingUpdate (trsmA_bwd_step target one alpha mt nt lookahead k)
     = (if k-1-lookahead \<ge> 0
        then [\<lparr>kind = TrailingUpdate,
                depends = [In k, Inout (k-1-lookahead), Inout 0], priority = 0,
                body = [CreateLocalB None 0 (k - lookahead - 1) k,
                        GemmA HostTask (-1) (TSub MatA 0 (k-1-lookahead) k k)
                          (TSub MatB k k 0 (nt-1)) 1 (TSub MatB 0 (k-1-lookahead) 0 (nt-1))
                          0 None]\<rparr>]
        else [])
   \<and> rows_updated TrailingUpdate (trsmA_bwd_step target one alpha mt nt lookahead k)
     = {0..k-1-lookahead}
   \<and> (\<forall>t \<in> set (tasks_of TrailingUpdate
                   (sweep_events (trsmA_bwd_loop target one alpha mt nt lookahead (mt-1)))).
       \<forall>u \<in> set (tasks_of TrailingUpdate
                   (sweep_events (trsmA_bwd_loop target one alpha mt nt lookahead (mt-1)))).
         ordered_by_tokens t u)"
proof (intro conjI)
  show "tasks_of TrailingUpdate (potrf_step target mt lookahead k)
     = (if k+1+lookahead < mt
        then [\<lparr>kind = TrailingUpdate,
                depends = [In k, Inout (k+1+lookahead), Inout (mt-1)], priority = 0,
                body = [Herk target (-1) (Tiles (Sub (k+1+lookahead) (mt-1) k k))
                          1 (Tiles (SubD (k+1+lookahead) (mt-1))) None None]\<rparr>]
        else [])"
    by (simp add: trailing_tasks_potrf_step potrf_trailing_task_def)
  show "tasks_of TrailingUpdate (potrf_devices_step trs mt lookahead k)
     = (if k+1+lookahead < mt
        then [\<lparr>kind = TrailingUpdate,
                depends = [In k, Inout (k+1+lookahead), Inout (mt-1)], priority = 0,
                body = [Herk Devices (-1) (Tiles (Sub (k+1+lookahead) (mt-1) k k))
                          1 (Tiles (SubD (k+1+lookahead) (mt-1))) (Some 0) (Some 0)]\<rparr>]
        else [])"
    by (simp add: trailing_tasks_potrf_devices_step potrf_devices_trailing_task_def)
  show "tasks_of TrailingUpdate (trsmA_fwd_step target one alpha mt nt lookahead k)
     = (if k+1+lookahead < mt
        then [\<lparr>kind = TrailingUpdate,
                depends = [In k, Inout (k+1+lookahead), Inout (mt-1)], priority = 0,
                body = gemmA_loop target nt k (k+1+lookahead) (mt-1) 0 0 0\<rparr>]
        else [])"
    by (simp add: trailing_tasks_trsmA_fwd_step trsmA_fwd_trailing_task_def)
  show "cols_updated TrailingUpdate (potrf_step target mt lookahead k) = {k+1+lookahead..mt-1}"
    by (rule trailing_cols_potrf_step)
  show "cols_updated TrailingUpdate (potrf_devices_step trs mt lookahead k)
     = {k+1+lookahead..mt-1}"
    by (rule trailing_cols_potrf_devices_step)
  show "1 \<le> nt \<longrightarrow>
        rows_updated TrailingUpdate (trsmA_fwd_step target one alpha mt nt lookahead k)
          = {k+1+lookahead..mt-1}"
    by (simp add: trailing_rows_trsmA_fwd_step)
  show "\<forall>t \<in> set (tasks_of TrailingUpdate (sweep_events (potrf_loop target mt lookahead 0))).
       \<forall>u \<in> set (tasks_of TrailingUpdate (sweep_events (potrf_loop target mt lookahead 0))).
         ordered_by_tokens t u"
    by (rule potrf_trailing_chain)
  show "\<forall>t \<in> set (tasks_of TrailingUpdate (sweep_events (potrf_devices_loop trs mt lookahead 0))).
       \<forall>u \<in> set (tasks_of TrailingUpdate (sweep_events (potrf_devices_loop trs mt lookahead 0))).
         ordered_by_tokens t u"
    by (rule potrf_devices_trailing_chain)
  show "\<forall>t \<in> set (tasks_of TrailingUpdate
                   (sweep_events (trsmA_fwd_loop target one alpha mt nt lookahead 0))).
       \<forall>u \<in> set (tasks_of TrailingUpdate
                   (sweep_events (trsmA_fwd_loop target one alpha mt nt lookahead 0))).
         ordered_by_tokens t u"
    by (rule trsmA_fwd_trailing_chain)
  show "tasks_of TrailingUpdate (trsmA_bwd_step target one alpha mt nt lookahead k)
     = (if k-1-lookahead \<ge> 0
        then [\<lparr>kind = TrailingUpdate,
                depends = [In k, Inout (k-1-lookahead), Inout 0], priority = 0,
                body = [CreateLocalB None 0 (k - lookahead - 1) k,
                        GemmA HostTask (-1) (TSub MatA 0 (k-1-lookahead) k k)
                          (TSub MatB k k 0 (nt-1)) 1 (TSub MatB 0 (k-1-lookahead) 0 (nt-1))
                          0 None]\<rparr>]
        else [])"
    by (simp add: trailing_tasks_trsmA_bwd_step trsmA_bwd_trailing_task_def)
  show "rows_updated TrailingUpdate (trsmA_bwd_step target one alpha mt nt lookahead k)
     = {0..k-1-lookahead}"
    by (rule trailing_rows_trsmA_bwd_step)
  show "\<forall>t \<in> set (tasks_of TrailingUpdate
                   (sweep_events (trsmA_bwd_loop target one alpha mt nt lookahead (mt-1)))).
       \<forall>u \<in> set (tasks_of TrailingUpdate
                   (sweep_events (trsmA_bwd_loop target one alpha mt nt lookahead (mt-1)))).
         ordered_by_tokens t u"
    by (rule trsmA_bwd_trailing_chain)
qed

theorem trailing_update_task_dependencies_witness:
  "tasks_of TrailingUpdate (potrf_step HostNest 3 0 0)
     = [\<lparr>kind = TrailingUpdate, depends = [In 0, Inout 1, Inout 2], priority = 0,
         body = [Herk HostNest (-1) (Tiles (Sub 1 2 0 0)) 1 (Tiles (SubD 1 2)) None None]\<rparr>]
   \<and> tasks_of TrailingUpdate (potrf_step HostNest 3 0 2) = []
   \<and> ordered_by_tokens (potrf_trailing_task HostNest 3 0 0) (potrf_trailing_task HostNest 3 0 1)
   \<and> ordered_by_tokens (potrf_devices_trailing_task 3 0 0) (potrf_devices_trailing_task 3 0 1)
   \<and> rows_updated TrailingUpdate (trsmA_fwd_step HostNest (1::int) 1 3 1 0 0) = {1..2}
   \<and> ordered_by_tokens (trsmA_fwd_trailing_task HostNest 3 1 0 0 :: int trsmA_call task)
        (trsmA_fwd_trailing_task HostNest 3 1 0 1)
   \<and> rows_updated TrailingUpdate (trsmA_bwd_step HostNest (1::int) 1 3 1 0 0) = {}
   \<and> ordered_by_tokens (trsmA_bwd_trailing_task 1 0 2 :: int trsmA_call task)
        (trsmA_bwd_trailing_task 1 0 1)"
proof -
  note t0 = trailing_update_task_dependencies
              [where target = HostNest and mt = 3 and lookahead = 0 and k = 0
                 and trs = TRS_All and one = "1::int" and alpha = 1 and nt = 1]
  note t2 = trailing_update_task_dependencies
              [where target = HostNest and mt = 3 and lookahead = 0 and k = 2
                 and trs = TRS_All and one = "1::int" and alpha = 1 and nt = 1]
  have u: "[0..2] = [0, 1, (2::int)]" by code_simp
  have m1: "tasks_of TrailingUpdate (sweep_events (potrf_loop HostNest 3 0 0))
      = [potrf_trailing_task HostNest 3 0 0, potrf_trailing_task HostNest 3 0 1]"
    unfolding potrf_loop_map tasks_of_sweep trailing_tasks_potrf_step by (simp add: u)
  have m2: "tasks_of TrailingUpdate (sweep_events (potrf_devices_loop TRS_All 3 0 0))
      = [potrf_devices_trailing_task 3 0 0, potrf_devices_trailing_task 3 0 1]"
    unfolding potrf_devices_loop_map tasks_of_sweep trailing_tasks_potrf_devices_step by (simp add: u)
  have m3: "tasks_of TrailingUpdate (sweep_events (trsmA_fwd_loop HostNest (1::int) 1 3 1 0 0))
      = [trsmA_fwd_trailing_task HostNest 3 1 0 0, trsmA_fwd_trailing_task HostNest 3 1 0 1]"
    unfolding trsmA_fwd_loop_map tasks_of_sweep trailing_tasks_trsmA_fwd_step by (simp add: u)
  have v: "rev [0..2] = [2, 1, 0::int]" by code_simp
  have m4: "tasks_of TrailingUpdate
              (sweep_events (trsmA_bwd_loop HostNest (1::int) 1 3 1 0 (3 - 1)))
      = [trsmA_bwd_trailing_task 1 0 2, trsmA_bwd_trailing_task 1 0 1]"
    unfolding trsmA_bwd_loop_map tasks_of_sweep trailing_tasks_trsmA_bwd_step
    by (simp add: v)
  from t0 have a: "tasks_of TrailingUpdate (potrf_step HostNest 3 0 0)
     = [\<lparr>kind = TrailingUpdate, depends = [In 0, Inout 1, Inout 2], priority = 0,
         body = [Herk HostNest (-1) (Tiles (Sub 1 2 0 0)) 1 (Tiles (SubD 1 2)) None None]\<rparr>]"
    by simp
  from t2 have b: "tasks_of TrailingUpdate (potrf_step HostNest 3 0 2) = []"
    by simp
  from t0 have c: "ordered_by_tokens (potrf_trailing_task HostNest 3 0 0)
      (potrf_trailing_task HostNest 3 0 1)"
    unfolding m1 by simp
  from t0 have d: "ordered_by_tokens (potrf_devices_trailing_task 3 0 0)
      (potrf_devices_trailing_task 3 0 1)"
    unfolding m2 by simp
  from t0 have e: "rows_updated TrailingUpdate (trsmA_fwd_step HostNest (1::int) 1 3 1 0 0) = {1..2}"
    by simp
  from t0 have f: "ordered_by_tokens (trsmA_fwd_trailing_task HostNest 3 1 0 0 :: int trsmA_call task)
        (trsmA_fwd_trailing_task HostNest 3 1 0 1)"
    unfolding m3 by simp
  from t0 have g: "rows_updated TrailingUpdate (trsmA_bwd_step HostNest (1::int) 1 3 1 0 0) = {}"
    by simp
  from t0 have i: "ordered_by_tokens (trsmA_bwd_trailing_task 1 0 2 :: int trsmA_call task)
        (trsmA_bwd_trailing_task 1 0 1)"
    unfolding m4 by simp
  from a b c d e f g i show ?thesis by simp
qed

end
